theory Spec2Isabelle
  imports Main "HOL-Library.Sublist" "HOL-Library.Log_Nat"
begin

section \<open>Python text\<close>

text \<open>
  A Python \<^verbatim>\<open>str\<close> is a sequence of Unicode code points, so the model keeps a text as the
  list of its code points. Literals are written as Isabelle strings and converted by
  \<open>str\<close>; code points beyond ASCII are written as numbers.
\<close>

type_synonym pystr = "nat list"

definition str :: "string \<Rightarrow> pystr" where
  "str s = map of_char s"

text \<open>
  The part of the Unicode character database that \<^verbatim>\<open>flask_server/app.py\<close> reaches through
  \<^verbatim>\<open>str.lower\<close> and the class \<^verbatim>\<open>\w\<close>, for code points from 128 on. The tables are no part of
  the repository; they are a parameter of the model, and nothing is assumed about them.
  \<open>alnum_wide c\<close>: is \<open>c\<close> alphanumeric; \<open>lower_wide c\<close>: the lower-case form of \<open>c\<close>, which may
  be several characters. (For the one code point whose lower-case form depends on its
  neighbours, U+03A3, the table holds one of its two forms; neither is an ASCII character.)
\<close>

record unicode =
  alnum_wide :: "nat \<Rightarrow> bool"
  lower_wide :: "nat \<Rightarrow> pystr"

text \<open>The tables cut down to Latin-1: beyond code point 255 nothing is alphanumeric or cased.\<close>

definition latin1 :: unicode where
  "latin1 = \<lparr>
     alnum_wide = (\<lambda>c. c \<in> {170, 178, 179, 181, 185, 186, 188, 189, 190}
                      \<or> (192 \<le> c \<and> c \<le> 255 \<and> c \<noteq> 215 \<and> c \<noteq> 247)),
     lower_wide = (\<lambda>c. if 192 \<le> c \<and> c \<le> 222 \<and> c \<noteq> 215 then [c + 32] else [c]) \<rparr>"

definition ascii_lower :: "nat \<Rightarrow> nat" where
  "ascii_lower c = (if 65 \<le> c \<and> c \<le> 90 then c + 32 else c)"

text \<open>\<^verbatim>\<open>str.lower()\<close>.\<close>

definition py_lower :: "unicode \<Rightarrow> pystr \<Rightarrow> pystr" where
  "py_lower u s = concat (map (\<lambda>c. if c < 128 then [ascii_lower c] else lower_wide u c) s)"

text \<open>
  White space as \<^verbatim>\<open>str.isspace\<close>, \<^verbatim>\<open>str.strip\<close> and the class \<^verbatim>\<open>\s\<close> of a text pattern see it:
  a fixed set of 29 code points.
\<close>

definition is_space :: "nat \<Rightarrow> bool" where
  "is_space c \<longleftrightarrow>
     (9 \<le> c \<and> c \<le> 13) \<or> (28 \<le> c \<and> c \<le> 32) \<or> c = 133 \<or> c = 160 \<or> c = 5760
     \<or> (8192 \<le> c \<and> c \<le> 8202) \<or> c = 8232 \<or> c = 8233 \<or> c = 8239 \<or> c = 8287 \<or> c = 12288"

text \<open>The class \<^verbatim>\<open>\w\<close> of a text pattern: alphanumeric or the underscore. White space is never in it.\<close>

definition is_word :: "unicode \<Rightarrow> nat \<Rightarrow> bool" where
  "is_word u c \<longleftrightarrow>
     (48 \<le> c \<and> c \<le> 57) \<or> (65 \<le> c \<and> c \<le> 90) \<or> (97 \<le> c \<and> c \<le> 122) \<or> c = 95
     \<or> (128 \<le> c \<and> \<not> is_space c \<and> alnum_wide u c)"

text \<open>\<^verbatim>\<open>str.strip()\<close>.\<close>

definition py_strip :: "pystr \<Rightarrow> pystr" where
  "py_strip s = rev (dropWhile is_space (rev (dropWhile is_space s)))"

text \<open>\<^verbatim>\<open>needle in hay\<close> on two texts.\<close>

fun py_in :: "pystr \<Rightarrow> pystr \<Rightarrow> bool" where
  "py_in needle [] = (needle = [])"
| "py_in needle (c # cs) = (prefix needle (c # cs) \<or> py_in needle cs)"

text \<open>\<^verbatim>\<open>str(n)\<close> of an integer, as an f-string inserts it.\<close>

fun show_nat :: "nat \<Rightarrow> pystr" where
  "show_nat n = (if n < 10 then [48 + n] else show_nat (n div 10) @ [48 + n mod 10])"

declare show_nat.simps [simp del]

definition show_int :: "int \<Rightarrow> pystr" where
  "show_int i = (if i < 0 then 45 # show_nat (nat (- i)) else show_nat (nat i))"

section \<open>Double-precision arithmetic\<close>

text \<open>
  A Python \<^verbatim>\<open>float\<close> is an IEEE 754 binary64 number. A finite one is kept as the rational it
  denotes, and every operation rounds its exact result to the nearest number with a 53-bit
  significand, ties to even, with the fixed quantum \<open>2 powi -1074\<close> below \<open>2 powi -1022\<close>.
  Overflow to infinity is not modelled: every value computed below stays under 2000.
\<close>

definition round_even :: "rat \<Rightarrow> int" where
  "round_even x =
     (let f = \<lfloor>x\<rfloor>; d = x - of_int f
      in if d < 1 / 2 then f else if 1 / 2 < d then f + 1 else if even f then f else f + 1)"

text \<open>The integer \<open>k\<close> with \<open>2 powi k \<le> x < 2 powi (k + 1)\<close>, for \<open>x > 0\<close>.\<close>

definition ilog2 :: "rat \<Rightarrow> int" where
  "ilog2 x =
     (let k = bitlen (fst (quotient_of x)) - bitlen (snd (quotient_of x))
      in if 2 powi k \<le> x then k else k - 1)"

definition quantum :: "rat \<Rightarrow> int" where
  "quantum x = max (ilog2 \<bar>x\<bar>) (- 1022) - 52"

definition fl :: "rat \<Rightarrow> rat" where
  "fl x = (if x = 0 then 0
           else sgn x * of_int (round_even (\<bar>x\<bar> / 2 powi quantum x)) * 2 powi quantum x)"

definition fmul :: "rat \<Rightarrow> rat \<Rightarrow> rat" where
  "fmul a b = fl (a * b)"

definition fsub :: "rat \<Rightarrow> rat \<Rightarrow> rat" where
  "fsub a b = fl (a - b)"

text \<open>\<^verbatim>\<open>int(x)\<close> of a float: truncation towards zero.\<close>

definition py_int :: "rat \<Rightarrow> int" where
  "py_int x = (if 0 \<le> x then \<lfloor>x\<rfloor> else \<lceil>x\<rceil>)"

section \<open>The patterns of the chat assistant\<close>

text \<open>
  \<^verbatim>\<open>get_ai_response\<close> runs \<^verbatim>\<open>re.search\<close> with patterns of three shapes. Each shape has a
  matcher that tries the pattern at the start of a text, and a search that takes the leftmost
  position where the matcher succeeds, as \<^verbatim>\<open>re.search\<close> does.

  Under \<^verbatim>\<open>re.IGNORECASE\<close> a letter of the pattern matches both its cases, and besides them
  \<open>i\<close> matches U+0130 and U+0131, \<open>s\<close> matches U+017F and \<open>k\<close> matches U+212A.
\<close>

definition ci_char :: "nat \<Rightarrow> nat \<Rightarrow> bool" where
  "ci_char p c \<longleftrightarrow>
     ascii_lower c = ascii_lower p
     \<or> (ascii_lower p = 105 \<and> (c = 304 \<or> c = 305))
     \<or> (ascii_lower p = 115 \<and> c = 383)
     \<or> (ascii_lower p = 107 \<and> c = 8490)"

text \<open>The literal \<open>lit\<close> at the start of the text, ignoring case: what follows it.\<close>

fun ci_prefix :: "pystr \<Rightarrow> pystr \<Rightarrow> pystr option" where
  "ci_prefix [] s = Some s"
| "ci_prefix (p # ps) [] = None"
| "ci_prefix (p # ps) (c # cs) = (if ci_char p c then ci_prefix ps cs else None)"

text \<open>
  \<^verbatim>\<open>label\s*(\w+)\<close> with \<^verbatim>\<open>re.IGNORECASE\<close>, group 1. The greedy \<^verbatim>\<open>\s*\<close> takes all the white
  space there is; giving some back cannot help, since what it gives back is no word
  character.
\<close>

definition match_field :: "unicode \<Rightarrow> pystr \<Rightarrow> pystr \<Rightarrow> pystr option" where
  "match_field u label s =
     (case ci_prefix label s of
        None \<Rightarrow> None
      | Some rest \<Rightarrow>
          (let g = takeWhile (is_word u) (dropWhile is_space rest)
           in if g = [] then None else Some g))"

fun search_field :: "unicode \<Rightarrow> pystr \<Rightarrow> pystr \<Rightarrow> pystr option" where
  "search_field u label [] = match_field u label []"
| "search_field u label (c # cs) =
     (case match_field u label (c # cs) of
        Some g \<Rightarrow> Some g
      | None \<Rightarrow> search_field u label cs)"

text \<open>The lazy \<^verbatim>\<open>([\s\S]*?)stop\<close>: the text before the first occurrence of \<open>stop\<close>.\<close>

fun find_before :: "pystr \<Rightarrow> pystr \<Rightarrow> pystr option" where
  "find_before stop [] = (if stop = [] then Some [] else None)"
| "find_before stop (c # cs) =
     (if prefix stop (c # cs) then Some [] else map_option ((#) c) (find_before stop cs))"

text \<open>
  \<^verbatim>\<open>title\s*====\<close>: the title, any white space, and the underline of the pattern (a fixed
  number of \<^verbatim>\<open>=\<close>); what follows the underline.
\<close>

definition match_marker :: "pystr \<Rightarrow> nat \<Rightarrow> pystr \<Rightarrow> pystr option" where
  "match_marker title n s =
     (if prefix title s then
        (let r = dropWhile is_space (drop (length title) s)
         in if prefix (replicate n 61) r then Some (drop n r) else None)
      else None)"

text \<open>\<^verbatim>\<open>title\s*====([\s\S]*?)stop\<close>, group 1.\<close>

definition match_section :: "pystr \<Rightarrow> nat \<Rightarrow> pystr \<Rightarrow> pystr \<Rightarrow> pystr option" where
  "match_section title n stop s =
     (case match_marker title n s of
        None \<Rightarrow> None
      | Some r \<Rightarrow> find_before stop r)"

fun search_section :: "pystr \<Rightarrow> nat \<Rightarrow> pystr \<Rightarrow> pystr \<Rightarrow> pystr option" where
  "search_section title n stop [] = match_section title n stop []"
| "search_section title n stop (c # cs) =
     (case match_section title n stop (c # cs) of
        Some g \<Rightarrow> Some g
      | None \<Rightarrow> search_section title n stop cs)"

text \<open>\<^verbatim>\<open>title\s*====([\s\S]*)\<close>, group 1: the greedy group runs to the end of the text.\<close>

fun search_tail :: "pystr \<Rightarrow> nat \<Rightarrow> pystr \<Rightarrow> pystr option" where
  "search_tail title n [] = match_marker title n []"
| "search_tail title n (c # cs) =
     (case match_marker title n (c # cs) of
        Some g \<Rightarrow> Some g
      | None \<Rightarrow> search_tail title n cs)"

section \<open>The chat assistant: \<^verbatim>\<open>get_ai_response\<close>\<close>

definition no_profit_yet :: pystr where
  "no_profit_yet = str ''I can only calculate potential profit after an analysis has been run. Please run the analysis first.''"

definition no_analysis_yet :: pystr where
  "no_analysis_yet = str ''I don't have any analysis results to work with yet. Please click 'Run Analysis' first.''"

definition capabilities :: pystr where
  "capabilities = str ''I can answer questions about crop health, soil conditions, pest risk, and potential profit. What would you like to know?''"

text \<open>The number the profit branch prints: \<^verbatim>\<open>base_profit\<close> after the two adjustments.\<close>

definition base_profit :: "pystr \<Rightarrow> pystr \<Rightarrow> rat" where
  "base_profit health_status pest_status =
     (let base = 1000;
          base = (if health_status = str ''good'' then fmul base (fl (12 / 10))
                  else if health_status = str ''moderate'' then fmul base (fl (9 / 10))
                  else if health_status = str ''poor'' then fmul base (fl (6 / 10))
                  else base);
          base = (if pest_status = str ''low'' then fmul base (fl (11 / 10))
                  else if pest_status = str ''medium'' then fmul base (fl (8 / 10))
                  else if pest_status = str ''high'' then fmul base (fl (5 / 10))
                  else base)
      in base)"

definition health_status :: "unicode \<Rightarrow> pystr \<Rightarrow> pystr" where
  "health_status u context =
     (case search_field u (str ''Overall Crop Health Status:'') context of
        Some g \<Rightarrow> py_lower u g
      | None \<Rightarrow> str ''unknown'')"

definition pest_status :: "unicode \<Rightarrow> pystr \<Rightarrow> pystr" where
  "pest_status u context =
     (case search_field u (str ''Overall Pest Risk Level:'') context of
        Some g \<Rightarrow> py_lower u g
      | None \<Rightarrow> str ''unknown'')"

definition profit_reply :: "int \<Rightarrow> pystr" where
  "profit_reply n =
     str ''Based on the analysis, the estimated potential profit is around $'' @ show_int n
     @ str '' per unit area. This is an estimate based on crop health and pest risk.''"

definition section_reply :: "pystr option \<Rightarrow> pystr \<Rightarrow> pystr" where
  "section_reply m missing = (case m of Some g \<Rightarrow> py_strip g | None \<Rightarrow> missing)"

definition get_ai_response :: "unicode \<Rightarrow> pystr \<Rightarrow> pystr \<Rightarrow> pystr" where
  "get_ai_response u message0 context =
     (let message = py_lower u message0
      in if context = [] then
           (if py_in (str ''profit'') message then no_profit_yet else no_analysis_yet)
         else if py_in (str ''profit'') message then
           profit_reply (py_int (base_profit (health_status u context) (pest_status u context)))
         else if py_in (str ''crop health'') message then
           section_reply
             (search_section (str ''CROP HEALTH ANALYSIS'') 20 (str ''SOIL CONDITION ANALYSIS'') context)
             (str ''I couldn't find the Crop Health section in the analysis.'')
         else if py_in (str ''soil'') message \<or> py_in (str ''moisture'') message then
           section_reply
             (search_section (str ''SOIL CONDITION ANALYSIS'') 23 (str ''PEST RISK ANALYSIS'') context)
             (str ''I couldn't find the Soil Condition section in the analysis.'')
         else if py_in (str ''pest'') message then
           section_reply
             (search_section (str ''PEST RISK ANALYSIS'') 18 (str ''RECOMMENDATIONS'') context)
             (str ''I couldn't find the Pest Risk section in the analysis.'')
         else if py_in (str ''recommendations'') message then
           section_reply
             (search_tail (str ''RECOMMENDATIONS'') 15 context)
             (str ''I couldn't find any recommendations in the analysis.'')
         else capabilities)"

section \<open>The multipliers as the specification words them\<close>

text \<open>
  The specification gives the profit rule as a table of multipliers: good 1.2, moderate 0.9,
  poor 0.6 and low 1.1, medium 0.8, high 0.5, with 1.0 for anything else. The two functions
  below follow those words; the theorems compare them with \<open>base_profit\<close>.
\<close>

definition spec_health_mult :: "pystr \<Rightarrow> rat" where
  "spec_health_mult s =
     (if s = str ''good'' then 12 / 10 else if s = str ''moderate'' then 9 / 10
      else if s = str ''poor'' then 6 / 10 else 1)"

definition spec_pest_mult :: "pystr \<Rightarrow> rat" where
  "spec_pest_mult s =
     (if s = str ''low'' then 11 / 10 else if s = str ''medium'' then 8 / 10
      else if s = str ''high'' then 5 / 10 else 1)"

section \<open>The synthetic report: \<^verbatim>\<open>generate_demo_results\<close>\<close>

text \<open>
  \<^verbatim>\<open>datetime.utcnow().strftime('%Y-%m-%d %H:%M:%S UTC')\<close>: the fields of the date in decimal,
  padded with zeros to four and to two digits.
\<close>

record datetime =
  year :: nat
  month :: nat
  day :: nat
  hour :: nat
  minute :: nat
  second :: nat

definition pad :: "nat \<Rightarrow> nat \<Rightarrow> pystr" where
  "pad w n = replicate (w - length (show_nat n)) 48 @ show_nat n"

definition strftime :: "datetime \<Rightarrow> pystr" where
  "strftime d =
     pad 4 (year d) @ str ''-'' @ pad 2 (month d) @ str ''-'' @ pad 2 (day d) @ str '' ''
     @ pad 2 (hour d) @ str '':'' @ pad 2 (minute d) @ str '':'' @ pad 2 (second d) @ str '' UTC''"

text \<open>
  The report is one f-string: fixed lines, with the report identifier and the date inserted in
  the fifth and the sixth line. The text starts with a line break and every line ends with
  one. The lines before the two insertions and the lines after them:
\<close>

definition unlines :: "pystr list \<Rightarrow> pystr" where
  "unlines ls = concat (map (\<lambda>l. l @ [10]) ls)"

definition report_head :: "pystr list" where
  "report_head =
     [str ''=== AGRICULTURAL MONITORING RESULTS ==='',
      [],
      str ''EXECUTIVE SUMMARY'',
      str ''================'']"

definition report_tail :: "pystr list" where
  "report_tail =
     [str ''Overall Assessment: Good (Score: 0.82)'',
      str ''Risk Level: Medium'',
      [],
      str ''CROP HEALTH ANALYSIS'',
      str ''===================='',
      str ''Overall Health: Good (Score: 0.78)'',
      str ''Confidence: 0.85'',
      [],
      str ''Vegetation Indices:'',
      str ''  NDVI: 0.612 (Healthy)'',
      str ''  GNDVI: 0.488 (Healthy)'',
      str ''  NDRE: 0.212 (Moderate)'',
      str ''  SAVI: 0.365 (Moderate)'',
      str ''  EVI: 0.304 (Moderate)'',
      [],
      str ''Health Distribution:'',
      str ''  Healthy: 62.5%'',
      str ''  Stressed: 25.0%'',
      str ''  Unhealthy: 12.5%'',
      [],
      str ''SOIL CONDITION ANALYSIS'',
      str ''======================='',
      str ''Overall Health: Good (Score: 0.81)'',
      [],
      str ''Soil Parameters:'',
      str ''  Moisture: 0.18 (Adequate)'',
      str ''  Temperature: 22.1'' @ [176] @ str ''C (Optimal)'',
      str ''  pH: 6.7 (Optimal)'',
      str ''  EC: 1.35 dS/m (Normal)'',
      [],
      str ''PEST RISK ANALYSIS'',
      str ''=================='',
      str ''Overall Risk: Medium (Score: 0.46)'',
      str ''Confidence: 0.77'',
      [],
      str ''Specific Pest Risks:'',
      str ''  Aphids: 0.42 (Medium Risk)'',
      str ''  Whiteflies: 0.28 (Low Risk)'',
      str ''  Thrips: 0.31 (Medium Risk)'',
      str ''  Spider Mites: 0.22 (Low Risk)'',
      str ''  Caterpillars: 0.18 (Low Risk)'',
      [],
      str ''RECOMMENDATIONS'',
      str ''==============='',
      str ''Crop Health Recommendations:'',
      [8226] @ str '' Maintain current irrigation; spot-check yellow areas.'',
      [],
      str ''Soil Condition Recommendations:'',
      [8226] @ str '' If moisture < 0.2, apply 10'' @ [8211] @ str ''20 mm irrigation.'',
      [],
      str ''Pest Management Recommendations:'',
      [8226] @ str '' Medium pest pressure; scout hotspots before spraying.'',
      [],
      str ''Integrated Recommendations:'',
      [8226] @ str '' Prioritize scouting in medium/high-risk patches, then re-check indices in 3 days.'',
      [],
      str ''=== END OF RESULTS ==='']"

text \<open>
  The text that \<^verbatim>\<open>generate_demo_results\<close> returns, from \<^verbatim>\<open>int(time_time_safe())\<close> and the
  current date.
\<close>

definition report_text :: "int \<Rightarrow> datetime \<Rightarrow> pystr" where
  "report_text epoch now =
     [10] @ unlines (report_head
                     @ [str ''Report ID: DEMO-'' @ show_int epoch,
                        str ''Analysis Date: '' @ strftime now]
                     @ report_tail)"

section \<open>The orchestrator: \<^verbatim>\<open>run_matlab\<close>\<close>

text \<open>
  What a request reads from outside the program is a record: the environment variables, the
  answer of \<^verbatim>\<open>shutil.which\<close>, what \<^verbatim>\<open>subprocess.run\<close> does with a command line in a
  working directory, the listing of the results directory at the time the request reads it,
  the clock (\<open>time_time\<close> is \<^verbatim>\<open>int(time_time_safe())\<close>), and the directory of the script joined
  with \<^verbatim>\<open>'..'\<close>. A call that can raise gives \<open>Inl\<close> of the exception's text. \<open>write_maps\<close> is
  the exception, if any, raised while \<^verbatim>\<open>generate_demo_results\<close> creates the results directory
  and writes its nine map images; the pixels themselves are not modelled.

  \<open>run_as_main\<close> says how the server was started. The file ends its first part with
  \<^verbatim>\<open>if __name__ == '__main__': ... app.run(...)\<close> on lines 159 to 162, and defines
  \<^verbatim>\<open>generate_demo_results\<close> below that, on line 168. Started as a program
  (\<^verbatim>\<open>python app.py\<close>), the file serves its requests from inside \<^verbatim>\<open>app.run\<close>, before the
  definitions below it are executed: the name \<^verbatim>\<open>generate_demo_results\<close> is unbound while
  requests are served. Imported as a module (\<^verbatim>\<open>flask run\<close>, a WSGI server), the file is
  executed to its end before the first request.
\<close>

record completed_process =
  returncode :: int
  stdout :: pystr
  stderr :: pystr

record world =
  environ :: "pystr \<Rightarrow> pystr option"
  which :: "pystr \<Rightarrow> pystr option"
  subprocess_run :: "pystr \<Rightarrow> pystr \<Rightarrow> pystr + completed_process"
  listdir :: "pystr + pystr list"
  write_maps :: "pystr option"
  time_time :: int
  utcnow :: datetime
  matlab_script_path :: pystr
  run_as_main :: bool

text \<open>The JSON object of the reply: a result with its mode, or an error.\<close>

datatype response =
  Result (output': pystr) (images: "pystr list") (full_context: pystr) (mode: pystr)
| Error (error: pystr) (details: "pystr option")

definition getenv :: "world \<Rightarrow> pystr \<Rightarrow> pystr \<Rightarrow> pystr" where
  "getenv w name fallback = (case environ w name of Some v \<Rightarrow> v | None \<Rightarrow> fallback)"

definition generate_demo_results :: "world \<Rightarrow> pystr + pystr" where
  "generate_demo_results w =
     (case write_maps w of
        Some e \<Rightarrow> Inl e
      | None \<Rightarrow> Inr (report_text (time_time w) (utcnow w)))"

text \<open>The links to the \<^verbatim>\<open>.png\<close> files of the results directory.\<close>

definition image_urls :: "pystr list \<Rightarrow> pystr list" where
  "image_urls files = map (\<lambda>f. str ''/results/'' @ f) (filter (suffix (str ''.png'')) files)"

text \<open>The text of the \<^verbatim>\<open>NameError\<close> that the unbound name raises.\<close>

definition name_error :: pystr where
  "name_error = str ''name 'generate_demo_results' is not defined''"

text \<open>
  The three places that answer with synthetic results do the same after building the text
  that goes before the report: look up \<^verbatim>\<open>generate_demo_results\<close> and call it, list the images,
  reply with mode \<^verbatim>\<open>demo\<close>. An exception on the way, the \<^verbatim>\<open>NameError\<close> of the lookup
  included, is caught by the handler of \<^verbatim>\<open>run_matlab\<close> and answered with its text.
\<close>

definition demo_reply :: "world \<Rightarrow> pystr \<Rightarrow> response" where
  "demo_reply w before =
     (if run_as_main w then Error name_error None
      else
        (case generate_demo_results w of
           Inl e \<Rightarrow> Error e None
         | Inr text \<Rightarrow>
             (case listdir w of
                Inl e \<Rightarrow> Error e None
              | Inr files \<Rightarrow>
                  Result (before @ text) (image_urls files) (before @ text) (str ''demo''))))"

definition not_on_path :: pystr where
  "not_on_path = str ''MATLAB not found on PATH; running in DEMO mode. Set DEMO_MODE=0 and ensure MATLAB_CMD points to a valid MATLAB binary to run full analysis.\<newline>\<newline>''"

definition command_failed :: pystr where
  "command_failed = str ''MATLAB command failed or not found; running in DEMO mode instead. Error details:\<newline>''"

definition command_line :: "pystr \<Rightarrow> pystr \<Rightarrow> pystr" where
  "command_line matlab_cmd path =
     matlab_cmd @ str '' -batch '' @ [34] @ str ''cd('' @ [39]
     @ map (\<lambda>c. if c = 92 then 47 else c) path
     @ [39] @ str ''); addpath(pwd); main;'' @ [34]"

definition run_matlab :: "unicode \<Rightarrow> world \<Rightarrow> response" where
  "run_matlab u w =
     (if getenv w (str ''DEMO_MODE'') (str ''0'') = str ''1'' then demo_reply w []
      else
        (let matlab_cmd = getenv w (str ''MATLAB_CMD'') (str ''matlab'')
         in if which w matlab_cmd = None \<and> getenv w (str ''STRICT_MATLAB'') (str ''0'') \<noteq> str ''1''
            then demo_reply w not_on_path
            else
              (case subprocess_run w (command_line matlab_cmd (matlab_script_path w))
                      (matlab_script_path w) of
                 Inl e \<Rightarrow> Error e None
               | Inr process \<Rightarrow>
                   if returncode process \<noteq> 0 then
                     (let captured = stdout process @ stderr process
                      in if ((py_in (str ''not found'') (py_lower u captured)
                              \<and> py_in (str ''matlab'') (py_lower u captured))
                             \<or> returncode process = 127)
                            \<and> getenv w (str ''STRICT_MATLAB'') (str ''0'') \<noteq> str ''1''
                         then demo_reply w (command_failed @ captured @ str ''\<newline>\<newline>'')
                         else Error (str ''MATLAB script execution failed.'') (Some captured))
                   else
                     (case listdir w of
                        Inl e \<Rightarrow> Error e None
                      | Inr files \<Rightarrow>
                          Result (stdout process) (image_urls files) (stdout process)
                            (str ''matlab'')))))"

section \<open>The palette: \<^verbatim>\<open>jet_rgb\<close>\<close>

text \<open>
  The breakpoints 0.25, 0.5 and 0.75 are doubles, written as the fractions they are; the
  products and differences round.
\<close>

definition jet_rgb :: "rat \<Rightarrow> rat \<times> rat \<times> rat" where
  "jet_rgb v =
     (let (r, g, b) =
            (if v < 1 / 4 then (0, fmul 4 v, 1)
             else if v < 1 / 2 then (0, 1, fsub 1 (fmul 4 (fsub v (1 / 4))))
             else if v < 3 / 4 then (fmul 4 (fsub v (1 / 2)), 1, 0)
             else (1, fsub 1 (fmul 4 (fsub v (3 / 4))), 0))
      in (max 0 (min 1 r), max 0 (min 1 g), max 0 (min 1 b)))"

text \<open>
  The colour map as the specification words it, in exact arithmetic: four linear segments,
  each channel clamped to the unit interval.
\<close>

definition spec_jet :: "rat \<Rightarrow> rat \<times> rat \<times> rat" where
  "spec_jet v =
     (let (r, g, b) =
            (if v < 1 / 4 then (0, 4 * v, 1)
             else if v < 1 / 2 then (0, 1, 1 - 4 * (v - 1 / 4))
             else if v < 3 / 4 then (4 * (v - 1 / 2), 1, 0)
             else (1, 1 - 4 * (v - 3 / 4), 0))
      in (max 0 (min 1 r), max 0 (min 1 g), max 0 (min 1 b)))"

section \<open>Auxiliary notions for the proofs\<close>

text \<open>
  The letters of a text: every character is folded to the lower-case letter it matches when
  case is ignored, and only the letters and the line breaks are kept. A text that contains a
  pattern, exactly or ignoring case, has letters that contain the letters of the pattern.
\<close>

definition fold_char :: "nat \<Rightarrow> nat" where
  "fold_char c = (if c = 304 \<or> c = 305 then 105 else if c = 383 then 115
                  else if c = 8490 then 107 else ascii_lower c)"

definition letters :: "pystr \<Rightarrow> pystr" where
  "letters s = filter (\<lambda>c. c = 10 \<or> (97 \<le> c \<and> c \<le> 122)) (map fold_char s)"

text \<open>\<^verbatim>\<open>text.split('\n')\<close>: the lines of a text.\<close>

fun split_nl :: "pystr \<Rightarrow> pystr list" where
  "split_nl [] = [[]]"
| "split_nl (c # cs) =
     (if c = 10 then [] # split_nl cs
      else (case split_nl cs of [] \<Rightarrow> [[c]] | l # ls \<Rightarrow> (c # l) # ls))"

text \<open>
  What the profit rule reads from a report, said on the text itself. The pattern of a field
  is found at the start of a text when the text starts with the label, in any case, then any
  white space, then a word character. The value of a field in a report is the lower-cased
  word at the first position where the pattern is found: the run of word characters after the
  label and the white space, up to the end of the text or to the first character that is no
  word character. When the pattern is found at no position, the value is \<^verbatim>\<open>unknown\<close>.
\<close>

definition field_here :: "unicode \<Rightarrow> pystr \<Rightarrow> pystr \<Rightarrow> bool" where
  "field_here u label s \<longleftrightarrow>
     (\<exists>lab ws c rest. s = lab @ ws @ c # rest \<and> list_all2 ci_char label lab
        \<and> (\<forall>x\<in>set ws. is_space x) \<and> is_word u c)"

inductive field_value :: "unicode \<Rightarrow> pystr \<Rightarrow> pystr \<Rightarrow> pystr \<Rightarrow> bool" for u label where
  found:
    "context = pre @ lab @ ws @ word @ rest \<Longrightarrow> list_all2 ci_char label lab \<Longrightarrow>
     \<forall>x\<in>set ws. is_space x \<Longrightarrow> word \<noteq> [] \<Longrightarrow> \<forall>x\<in>set word. is_word u x \<Longrightarrow>
     rest = [] \<or> \<not> is_word u (hd rest) \<Longrightarrow>
     \<forall>i<length pre. \<not> field_here u label (drop i context) \<Longrightarrow>
     field_value u label context (py_lower u word)"
| missing:
    "\<forall>i\<le>length context. \<not> field_here u label (drop i context) \<Longrightarrow>
     field_value u label context (str ''unknown'')"

text \<open>
  The pattern of a field is found at no position of \<open>pre\<close> in the text \<open>pre @ s\<close>, as a
  function that runs through \<open>pre\<close>; the examples evaluate it.
\<close>

fun no_field_before :: "unicode \<Rightarrow> pystr \<Rightarrow> pystr \<Rightarrow> pystr \<Rightarrow> bool" where
  "no_field_before u label [] s = True"
| "no_field_before u label (c # pre) s
   = (match_field u label (c # pre @ s) = None \<and> no_field_before u label pre s)"

text \<open>
  The flags of a request, the configured command, the invocation of the engine and the output
  captured from it, and whether a reply is a result in demo mode.
\<close>

definition demo_forced :: "world \<Rightarrow> bool" where
  "demo_forced w \<longleftrightarrow> getenv w (str ''DEMO_MODE'') (str ''0'') = str ''1''"

definition strict :: "world \<Rightarrow> bool" where
  "strict w \<longleftrightarrow> getenv w (str ''STRICT_MATLAB'') (str ''0'') = str ''1''"

definition engine_cmd :: "world \<Rightarrow> pystr" where
  "engine_cmd w = getenv w (str ''MATLAB_CMD'') (str ''matlab'')"

definition invoke :: "world \<Rightarrow> pystr + completed_process" where
  "invoke w =
     subprocess_run w (command_line (engine_cmd w) (matlab_script_path w)) (matlab_script_path w)"

definition captured :: "completed_process \<Rightarrow> pystr" where
  "captured p = stdout p @ stderr p"

definition is_demo :: "response \<Rightarrow> bool" where
  "is_demo r = (case r of Result _ _ _ m \<Rightarrow> m = str ''demo'' | Error _ _ \<Rightarrow> False)"

section \<open>A request for the examples\<close>

text \<open>
  A machine without MATLAB and with no variable set, the file imported as a module: the shell
  answers 127. The examples below change single fields of it.
\<close>

definition world0 :: world where
  "world0 =
     \<lparr> environ = Map.empty,
       which = (\<lambda>c. None),
       subprocess_run = (\<lambda>c d. Inr \<lparr> returncode = 127, stdout = [],
                                       stderr = str ''/bin/sh: 1: matlab: not found\<newline>'' \<rparr>),
       listdir = Inr [str ''ndvi_map.png'', str ''notes.txt''],
       write_maps = None,
       time_time = 1700000000,
       utcnow = \<lparr> year = 2023, month = 11, day = 14, hour = 22, minute = 13, second = 20 \<rparr>,
       matlab_script_path = str ''/srv/app/flask_server/..'',
       run_as_main = False \<rparr>"

text \<open>
  An engine called \<^verbatim>\<open>octave\<close> that is installed and fails with exit status 1; strict mode
  with a command that carries an argument, which \<^verbatim>\<open>shutil.which\<close> does not resolve and the shell
  runs; a MATLAB link that resolves and does not start; forced demo mode, and the broken link,
  with a results directory that cannot be written; strict mode alone; forced demo mode alone;
  strict mode on a machine where the results directory cannot be listed after a run that
  exits with status 0. Then the file started as a program: with forced demo mode, with no
  variable set, and with the broken link.
\<close>

definition no_matlab_word :: world where
  "no_matlab_word =
     world0 \<lparr> environ := [str ''MATLAB_CMD'' \<mapsto> str ''octave''],
              which := (\<lambda>c. Some (str ''/usr/bin/octave'')),
              subprocess_run := (\<lambda>c d. Inr \<lparr> returncode = 1, stdout = [],
                                             stderr = str ''octave: toolbox not found\<newline>'' \<rparr>) \<rparr>"

definition strict_with_arguments :: world where
  "strict_with_arguments =
     world0 \<lparr> environ := [str ''STRICT_MATLAB'' \<mapsto> str ''1'',
                          str ''MATLAB_CMD'' \<mapsto> str ''matlab -nodisplay''],
              subprocess_run := (\<lambda>c d. Inr \<lparr> returncode = 0, stdout = str ''Analysis complete'',
                                             stderr = [] \<rparr>) \<rparr>"

definition broken_link :: world where
  "broken_link = world0 \<lparr> which := (\<lambda>c. Some (str ''/usr/local/bin/matlab'')) \<rparr>"

definition forced_read_only :: world where
  "forced_read_only =
     world0 \<lparr> environ := [str ''DEMO_MODE'' \<mapsto> str ''1''],
              write_maps := Some (str ''[Errno 30] Read-only file system'') \<rparr>"

definition broken_link_read_only :: world where
  "broken_link_read_only =
     world0 \<lparr> which := (\<lambda>c. Some (str ''/usr/local/bin/matlab'')),
              write_maps := Some (str ''[Errno 30] Read-only file system'') \<rparr>"

definition strict_only :: world where
  "strict_only = world0 \<lparr> environ := [str ''STRICT_MATLAB'' \<mapsto> str ''1''] \<rparr>"

definition forced_only :: world where
  "forced_only = world0 \<lparr> environ := [str ''DEMO_MODE'' \<mapsto> str ''1''] \<rparr>"

definition strict_unlisted :: world where
  "strict_unlisted =
     strict_with_arguments \<lparr> listdir := Inl (str ''[Errno 13] Permission denied: results'') \<rparr>"

definition main_forced :: world where
  "main_forced = forced_only \<lparr> run_as_main := True \<rparr>"

definition main_unavailable :: world where
  "main_unavailable = world0 \<lparr> run_as_main := True \<rparr>"

definition main_broken_link :: world where
  "main_broken_link = broken_link \<lparr> run_as_main := True \<rparr>"

section \<open>Evaluating text operations\<close>

text \<open>The definitions that evaluate a text operation on concrete texts.\<close>

lemma replicate_numeral: "replicate (numeral k) x = x # replicate (pred_numeral k) x"
  by (simp add: numeral_eq_Suc)

lemma show_nat_digit: "n < 10 \<Longrightarrow> show_nat n = [48 + n]"
  by (simp add: show_nat.simps [of n])

lemma show_nat_step: "10 \<le> n \<Longrightarrow> show_nat n = show_nat (n div 10) @ [48 + n mod 10]"
  by (simp add: show_nat.simps [of n])

lemmas text_eval =
  replicate_numeral show_nat_digit show_nat_step show_int_def
  str_def py_lower_def ascii_lower_def is_space_def is_word_def latin1_def ci_char_def
  match_field_def match_marker_def match_section_def py_strip_def section_reply_def
  health_status_def pest_status_def Let_def

lemma status_distinct:
  "str ''good'' \<noteq> str ''moderate''" "str ''good'' \<noteq> str ''poor''"
  "str ''moderate'' \<noteq> str ''poor''" "str ''low'' \<noteq> str ''medium''"
  "str ''low'' \<noteq> str ''high''" "str ''medium'' \<noteq> str ''high''"
  by (simp_all add: str_def)

section \<open>Facts about the rounding\<close>

lemma powi_mono: "i \<le> j \<Longrightarrow> (2::rat) powi i \<le> 2 powi j"
  by (rule power_int_increasing) simp_all

lemma powi_less_imp: "(2::rat) powi i < 2 powi j \<Longrightarrow> i < j"
  using powi_mono [of j i] by (cases "i < j") auto

lemma powi_pos: "0 < (2::rat) powi i"
  by simp

lemma bitlen_pos: "0 < (p::int) \<Longrightarrow> 0 < bitlen p"
  using compute_bitlen [of p] bitlen_nonneg [of "p div 2"] by simp

lemma bitlen_powi:
  assumes "0 < (p::int)"
  shows "(2::rat) powi (bitlen p - 1) \<le> of_int p" "of_int p < (2::rat) powi bitlen p"
proof -
  from bitlen_bounds [OF assms] have a: "2 ^ nat (bitlen p - 1) \<le> p" and b: "p < 2 ^ nat (bitlen p)"
    by auto
  have pos: "0 < bitlen p" using assms by (rule bitlen_pos)
  have "(of_int (2 ^ nat (bitlen p - 1)) :: rat) \<le> of_int p" using a by (simp only: of_int_le_iff)
  then show "(2::rat) powi (bitlen p - 1) \<le> of_int p"
    using pos by (simp add: power_int_def)
  have "(of_int p :: rat) < of_int (2 ^ nat (bitlen p))" using b by (simp only: of_int_less_iff)
  then show "of_int p < (2::rat) powi bitlen p"
    using pos by (simp add: power_int_def)
qed

lemma ilog2_bounds:
  assumes "0 < x"
  shows "2 powi ilog2 x \<le> x \<and> x < 2 powi (ilog2 x + 1)"
proof -
  obtain p q where pq: "quotient_of x = (p, q)" by (cases "quotient_of x")
  then have q: "0 < q" and x: "x = of_int p / of_int q"
    using quotient_of_denom_pos [OF pq] quotient_of_div [OF pq] by auto
  have p: "0 < p" using assms q x by (simp add: zero_less_divide_iff)
  let ?k = "bitlen p - bitlen q"
  have lo: "(2::rat) powi (?k - 1) \<le> x"
  proof -
    have "(2::rat) powi ((bitlen p - 1) - bitlen q) = 2 powi (bitlen p - 1) / 2 powi bitlen q"
      by (subst power_int_diff) simp_all
    moreover have "(bitlen p - 1) - bitlen q = ?k - 1" by simp
    ultimately have "(2::rat) powi (?k - 1) = 2 powi (bitlen p - 1) / 2 powi bitlen q"
      by simp
    also have "\<dots> \<le> of_int p / of_int q"
      using bitlen_powi [OF p] bitlen_powi [OF q] q p
      by (intro frac_le) auto
    finally show ?thesis using x by simp
  qed
  have hi: "x < (2::rat) powi (?k + 1)"
  proof -
    have "of_int p / of_int q < (2::rat) powi bitlen p / 2 powi (bitlen q - 1)"
      using bitlen_powi [OF p] bitlen_powi [OF q] q p
      by (intro frac_less) auto
    also have "\<dots> = 2 powi (bitlen p - (bitlen q - 1))"
      by (subst power_int_diff) simp_all
    also have "bitlen p - (bitlen q - 1) = ?k + 1" by simp
    finally show ?thesis using x by simp
  qed
  show ?thesis
    using lo hi pq by (auto simp: ilog2_def Let_def)
qed

lemma ilog2_unique:
  assumes "0 < x" "2 powi k \<le> x" "x < 2 powi (k + 1)"
  shows "ilog2 x = k"
proof -
  from ilog2_bounds [OF assms(1)] have a: "2 powi ilog2 x \<le> x" and b: "x < 2 powi (ilog2 x + 1)"
    by auto
  have "(2::rat) powi k < 2 powi (ilog2 x + 1)" using assms(2) b by simp
  then have "k < ilog2 x + 1" by (rule powi_less_imp)
  moreover have "(2::rat) powi ilog2 x < 2 powi (k + 1)" using a assms(3) by simp
  then have "ilog2 x < k + 1" by (rule powi_less_imp)
  ultimately show ?thesis by simp
qed

lemma round_even_near:
  assumes "\<bar>x - of_int m\<bar> < 1 / 2"
  shows "round_even x = m"
proof -
  have "\<lfloor>x\<rfloor> = m \<or> \<lfloor>x\<rfloor> = m - 1"
    using assms by (auto simp: floor_eq_iff abs_less_iff)
  then show ?thesis
  proof
    assume f: "\<lfloor>x\<rfloor> = m"
    have "x - of_int m < 1 / 2"
      using assms by linarith
    then show ?thesis
      by (simp add: round_even_def Let_def f)
  next
    assume f: "\<lfloor>x\<rfloor> = m - 1"
    have "of_int (m - 1) = (of_int m :: rat) - 1"
      by simp
    then have "1 / 2 < x - of_int (m - 1)"
      using assms by linarith
    then have "\<not> x - of_int (m - 1) < 1 / 2" "1 / 2 < x - of_int (m - 1)"
      by simp_all
    then show ?thesis
      unfolding round_even_def Let_def f by simp
  qed
qed

lemma fl_eval:
  assumes "0 < x" "2 powi k \<le> x" "x < 2 powi (k + 1)" "- 1022 \<le> k"
  shows "fl x = of_int (round_even (x / 2 powi (k - 52))) * 2 powi (k - 52)"
  using assms ilog2_unique [OF assms(1-3)] by (simp add: fl_def quantum_def)

lemma fl_check:
  assumes "0 < x" "2 powi k \<le> x" "x < 2 powi (k + 1)" "- 1022 \<le> k"
    and "\<bar>x / 2 powi (k - 52) - of_int m\<bar> < 1 / 2"
  shows "fl x = of_int m * 2 powi (k - 52)"
  using fl_eval [OF assms(1-4)] round_even_near [OF assms(5)] by simp

text \<open>
  The constants and products of the profit rule in double precision. Each is checked against
  the rounding: the exponent \<open>k\<close> and the significand \<open>m\<close> are given, and the exact value lies
  within half a unit of \<open>m\<close>.
\<close>

lemma fl_12: "fl (6 / 5) = 5404319552844595 * 2 powi (- 52)"
  using fl_check [where x = "6 / 5" and k = 0 and m = 5404319552844595] by simp

lemma fl_09: "fl (9 / 10) = 8106479329266893 * 2 powi (- 53)"
  using fl_check [where x = "9 / 10" and k = "- 1" and m = 8106479329266893] by simp

lemma fl_06: "fl (3 / 5) = 5404319552844595 * 2 powi (- 53)"
  using fl_check [where x = "3 / 5" and k = "- 1" and m = 5404319552844595] by simp

lemma fl_11: "fl (11 / 10) = 4953959590107546 * 2 powi (- 52)"
  using fl_check [where x = "11 / 10" and k = 0 and m = 4953959590107546] by simp

lemma fl_08: "fl (4 / 5) = 7205759403792794 * 2 powi (- 53)"
  using fl_check [where x = "4 / 5" and k = "- 1" and m = 7205759403792794] by simp

lemma fl_05: "fl (1 / 2) = 4503599627370496 * 2 powi (- 53)"
  using fl_check [where x = "1 / 2" and k = "- 1" and m = 4503599627370496] by simp

lemma fl_1: "fl (1) = 4503599627370496 * 2 powi (- 52)"
  using fl_check [where x = "1" and k = 0 and m = 4503599627370496] by simp

lemma py_int_check: "0 \<le> n \<Longrightarrow> of_int n \<le> x \<Longrightarrow> x < of_int n + 1 \<Longrightarrow> py_int x = n"
  by (simp add: py_int_def floor_unique)

lemma health_12: "fmul 1000 (fl (6 / 5)) = 1200"
  unfolding fmul_def fl_12
  using fl_check [where x = "1000 * (5404319552844595 * 2 powi (- 52))" and k = 10 and m = 5277655813324800] by simp

lemma health_09: "fmul 1000 (fl (9 / 10)) = 900"
  unfolding fmul_def fl_09
  using fl_check [where x = "1000 * (8106479329266893 * 2 powi (- 53))" and k = 9 and m = 7916483719987200] by simp

lemma health_06: "fmul 1000 (fl (3 / 5)) = 600"
  unfolding fmul_def fl_06
  using fl_check [where x = "1000 * (5404319552844595 * 2 powi (- 53))" and k = 9 and m = 5277655813324800] by simp

lemma health_1: "fmul 1000 (fl (1)) = 1000"
  unfolding fmul_def fl_1
  using fl_check [where x = "1000 * (4503599627370496 * 2 powi (- 52))" and k = 9 and m = 8796093022208000] by simp

lemma pest_1200_11: "py_int (fmul 1200 (fl (11 / 10))) = 1320"
proof -
  have "fmul 1200 (fl (11 / 10)) = 5805421394657280 * 2 powi (- 42)"
    unfolding fmul_def fl_11
    using fl_check [where x = "1200 * (4953959590107546 * 2 powi (- 52))" and k = 10 and m = 5805421394657280] by simp
  then show ?thesis
    by (simp add: py_int_check)
qed

lemma pest_1200_08: "py_int (fmul 1200 (fl (4 / 5))) = 960"
proof -
  have "fmul 1200 (fl (4 / 5)) = 8444249301319680 * 2 powi (- 43)"
    unfolding fmul_def fl_08
    using fl_check [where x = "1200 * (7205759403792794 * 2 powi (- 53))" and k = 9 and m = 8444249301319680] by simp
  then show ?thesis
    by (simp add: py_int_check)
qed

lemma pest_1200_05: "py_int (fmul 1200 (fl (1 / 2))) = 600"
proof -
  have "fmul 1200 (fl (1 / 2)) = 5277655813324800 * 2 powi (- 43)"
    unfolding fmul_def fl_05
    using fl_check [where x = "1200 * (4503599627370496 * 2 powi (- 53))" and k = 9 and m = 5277655813324800] by simp
  then show ?thesis
    by (simp add: py_int_check)
qed

lemma pest_1200_1: "py_int (fmul 1200 (fl (1))) = 1200"
proof -
  have "fmul 1200 (fl (1)) = 5277655813324800 * 2 powi (- 42)"
    unfolding fmul_def fl_1
    using fl_check [where x = "1200 * (4503599627370496 * 2 powi (- 52))" and k = 10 and m = 5277655813324800] by simp
  then show ?thesis
    by (simp add: py_int_check)
qed

lemma pest_900_11: "py_int (fmul 900 (fl (11 / 10))) = 990"
proof -
  have "fmul 900 (fl (11 / 10)) = 8708132091985921 * 2 powi (- 43)"
    unfolding fmul_def fl_11
    using fl_check [where x = "900 * (4953959590107546 * 2 powi (- 52))" and k = 9 and m = 8708132091985921] by simp
  then show ?thesis
    by (simp add: py_int_check)
qed

lemma pest_900_08: "py_int (fmul 900 (fl (4 / 5))) = 720"
proof -
  have "fmul 900 (fl (4 / 5)) = 6333186975989760 * 2 powi (- 43)"
    unfolding fmul_def fl_08
    using fl_check [where x = "900 * (7205759403792794 * 2 powi (- 53))" and k = 9 and m = 6333186975989760] by simp
  then show ?thesis
    by (simp add: py_int_check)
qed

lemma pest_900_05: "py_int (fmul 900 (fl (1 / 2))) = 450"
proof -
  have "fmul 900 (fl (1 / 2)) = 7916483719987200 * 2 powi (- 44)"
    unfolding fmul_def fl_05
    using fl_check [where x = "900 * (4503599627370496 * 2 powi (- 53))" and k = 8 and m = 7916483719987200] by simp
  then show ?thesis
    by (simp add: py_int_check)
qed

lemma pest_900_1: "py_int (fmul 900 (fl (1))) = 900"
proof -
  have "fmul 900 (fl (1)) = 7916483719987200 * 2 powi (- 43)"
    unfolding fmul_def fl_1
    using fl_check [where x = "900 * (4503599627370496 * 2 powi (- 52))" and k = 9 and m = 7916483719987200] by simp
  then show ?thesis
    by (simp add: py_int_check)
qed

lemma pest_600_11: "py_int (fmul 600 (fl (11 / 10))) = 660"
proof -
  have "fmul 600 (fl (11 / 10)) = 5805421394657280 * 2 powi (- 43)"
    unfolding fmul_def fl_11
    using fl_check [where x = "600 * (4953959590107546 * 2 powi (- 52))" and k = 9 and m = 5805421394657280] by simp
  then show ?thesis
    by (simp add: py_int_check)
qed

lemma pest_600_08: "py_int (fmul 600 (fl (4 / 5))) = 480"
proof -
  have "fmul 600 (fl (4 / 5)) = 8444249301319680 * 2 powi (- 44)"
    unfolding fmul_def fl_08
    using fl_check [where x = "600 * (7205759403792794 * 2 powi (- 53))" and k = 8 and m = 8444249301319680] by simp
  then show ?thesis
    by (simp add: py_int_check)
qed

lemma pest_600_05: "py_int (fmul 600 (fl (1 / 2))) = 300"
proof -
  have "fmul 600 (fl (1 / 2)) = 5277655813324800 * 2 powi (- 44)"
    unfolding fmul_def fl_05
    using fl_check [where x = "600 * (4503599627370496 * 2 powi (- 53))" and k = 8 and m = 5277655813324800] by simp
  then show ?thesis
    by (simp add: py_int_check)
qed

lemma pest_600_1: "py_int (fmul 600 (fl (1))) = 600"
proof -
  have "fmul 600 (fl (1)) = 5277655813324800 * 2 powi (- 43)"
    unfolding fmul_def fl_1
    using fl_check [where x = "600 * (4503599627370496 * 2 powi (- 52))" and k = 9 and m = 5277655813324800] by simp
  then show ?thesis
    by (simp add: py_int_check)
qed

lemma pest_1000_11: "py_int (fmul 1000 (fl (11 / 10))) = 1100"
proof -
  have "fmul 1000 (fl (11 / 10)) = 4837851162214400 * 2 powi (- 42)"
    unfolding fmul_def fl_11
    using fl_check [where x = "1000 * (4953959590107546 * 2 powi (- 52))" and k = 10 and m = 4837851162214400] by simp
  then show ?thesis
    by (simp add: py_int_check)
qed

lemma pest_1000_08: "py_int (fmul 1000 (fl (4 / 5))) = 800"
proof -
  have "fmul 1000 (fl (4 / 5)) = 7036874417766400 * 2 powi (- 43)"
    unfolding fmul_def fl_08
    using fl_check [where x = "1000 * (7205759403792794 * 2 powi (- 53))" and k = 9 and m = 7036874417766400] by simp
  then show ?thesis
    by (simp add: py_int_check)
qed

lemma pest_1000_05: "py_int (fmul 1000 (fl (1 / 2))) = 500"
proof -
  have "fmul 1000 (fl (1 / 2)) = 8796093022208000 * 2 powi (- 44)"
    unfolding fmul_def fl_05
    using fl_check [where x = "1000 * (4503599627370496 * 2 powi (- 53))" and k = 8 and m = 8796093022208000] by simp
  then show ?thesis
    by (simp add: py_int_check)
qed

lemma pest_1000_1: "py_int (fmul 1000 (fl (1))) = 1000"
proof -
  have "fmul 1000 (fl (1)) = 8796093022208000 * 2 powi (- 43)"
    unfolding fmul_def fl_1
    using fl_check [where x = "1000 * (4503599627370496 * 2 powi (- 52))" and k = 9 and m = 8796093022208000] by simp
  then show ?thesis
    by (simp add: py_int_check)
qed

lemmas health_facts = health_12 health_09 health_06 health_1

lemma py_int_numeral: "py_int 1200 = 1200" "py_int 900 = 900" "py_int 600 = 600" "py_int 1000 = 1000"
  by (simp_all add: py_int_def)

lemmas pest_facts =
  pest_1200_11 pest_1200_08 pest_1200_05 pest_1200_1 pest_900_11 pest_900_08 pest_900_05 pest_900_1
  pest_600_11 pest_600_08 pest_600_05 pest_600_1 pest_1000_11 pest_1000_08 pest_1000_05 pest_1000_1
  py_int_numeral

section \<open>Facts about texts and lines\<close>

lemma py_in_iff: "py_in a b \<longleftrightarrow> (\<exists>pre post. b = pre @ a @ post)"
proof (induction b)
  case Nil
  then show ?case by auto
next
  case (Cons c cs)
  show ?case
  proof
    assume "py_in a (c # cs)"
    then consider "prefix a (c # cs)" | "py_in a cs" by auto
    then show "\<exists>pre post. c # cs = pre @ a @ post"
    proof cases
      case 1
      then obtain post where "c # cs = a @ post" by (auto simp: prefix_def)
      then have "c # cs = [] @ a @ post" by simp
      then show ?thesis by blast
    next
      case 2
      with Cons.IH obtain pre post where "cs = pre @ a @ post" by blast
      then have "c # cs = (c # pre) @ a @ post" by simp
      then show ?thesis by blast
    qed
  next
    assume "\<exists>pre post. c # cs = pre @ a @ post"
    then obtain pre post where e: "c # cs = pre @ a @ post" by blast
    show "py_in a (c # cs)"
    proof (cases pre)
      case Nil
      with e have "prefix a (c # cs)" by (simp add: prefix_def)
      then show ?thesis by simp
    next
      case (Cons p ps)
      with e have "cs = ps @ a @ post" by simp
      with Cons.IH have "py_in a cs" by blast
      then show ?thesis by simp
    qed
  qed
qed

lemma py_in_across_newline:
  assumes "10 \<notin> set q" and "q \<noteq> []" and "py_in q (a @ 10 # b)"
  shows "py_in q a \<or> py_in q b"
proof -
  from assms(3) obtain pre post where e: "a @ 10 # b = pre @ q @ post"
    unfolding py_in_iff by blast
  then consider us where "a = pre @ us" "us @ 10 # b = q @ post"
    | us where "a @ us = pre" "10 # b = us @ q @ post"
    by (auto simp: append_eq_append_conv2)
  then show ?thesis
  proof cases
    case 1
    from 1(2) consider vs where "us = q @ vs" | vs where "us @ vs = q" "10 # b = vs @ post"
      by (auto simp: append_eq_append_conv2)
    then show ?thesis
    proof cases
      case 1
      with \<open>a = pre @ us\<close> have "a = pre @ q @ vs" by simp
      then show ?thesis unfolding py_in_iff by blast
    next
      case 2
      show ?thesis
      proof (cases vs)
        case Nil
        with 2 \<open>a = pre @ us\<close> have "a = pre @ q @ []" by simp
        then show ?thesis unfolding py_in_iff by blast
      next
        case (Cons v vs')
        with 2 have "v = 10" by simp
        with Cons 2(1) have "10 \<in> set q" by auto
        with assms(1) show ?thesis by simp
      qed
    qed
  next
    case 2
    show ?thesis
    proof (cases us)
      case Nil
      with 2(2) assms(2) have "10 \<in> set q" by (cases q) auto
      with assms(1) show ?thesis by simp
    next
      case (Cons v us')
      with 2(2) have "b = us' @ q @ post" by simp
      then show ?thesis unfolding py_in_iff by blast
    qed
  qed
qed

lemma unlines_Cons: "unlines (k # ks) = k @ 10 # unlines ks"
  by (simp add: unlines_def)

lemma py_in_unlines:
  assumes "10 \<notin> set q" and "q \<noteq> []" and "py_in q (unlines ks)"
  shows "\<exists>k\<in>set ks. py_in q k"
  using assms(3)
proof (induction ks)
  case Nil
  with assms(2) show ?case by (simp add: unlines_def)
next
  case (Cons k ks)
  then have "py_in q (k @ 10 # unlines ks)" by (simp add: unlines_Cons)
  from py_in_across_newline [OF assms(1,2) this] Cons.IH show ?case by auto
qed

lemma py_in_lines:
  assumes "10 \<notin> set q" and "q \<noteq> []" and "list_all (\<lambda>k. \<not> py_in q k) ks"
  shows "\<not> py_in q (10 # unlines ks)"
proof
  assume "py_in q (10 # unlines ks)"
  then have "py_in q ([] @ 10 # unlines ks)" by simp
  from py_in_across_newline [OF assms(1,2) this] assms(2) have "py_in q (unlines ks)"
    by simp
  from py_in_unlines [OF assms(1,2) this] assms(3) show False
    by (auto simp: list_all_iff)
qed

lemma letters_append: "letters (a @ b) = letters a @ letters b"
  by (simp add: letters_def)

lemma letters_nl: "letters (10 # s) = 10 # letters s"
  by (simp add: letters_def fold_char_def ascii_lower_def)

lemma letters_unlines: "letters (unlines ls) = unlines (map letters ls)"
  by (induction ls) (simp_all add: unlines_def letters_append letters_nl, simp add: letters_def)

lemma py_in_letters: "py_in a b \<Longrightarrow> py_in (letters a) (letters b)"
  unfolding py_in_iff by (auto simp: letters_append) blast

lemma show_nat_digits: "set (show_nat n) \<subseteq> {48..57}"
proof (induction n rule: show_nat.induct)
  case (1 n)
  show ?case
  proof (cases "n < 10")
    case True
    then show ?thesis by (simp add: show_nat.simps [of n])
  next
    case False
    then have "set (show_nat (n div 10)) \<subseteq> {48..57}" by (rule "1.IH")
    moreover have "48 + n mod 10 \<in> {48..57}" by simp
    ultimately show ?thesis using False by (simp add: show_nat.simps [of n])
  qed
qed

lemma letters_none: "set s \<subseteq> {c. 10 < c \<and> c < 65} \<Longrightarrow> letters s = []"
  by (induction s) (auto simp: letters_def fold_char_def ascii_lower_def)

lemma letters_show_int: "letters (show_int i) = []"
proof (rule letters_none)
  show "set (show_int i) \<subseteq> {c. 10 < c \<and> c < 65}"
    using show_nat_digits [of "nat i"] show_nat_digits [of "nat (- i)"]
    by (auto simp: show_int_def)
qed

lemma letters_pad: "letters (pad w n) = []"
proof (rule letters_none)
  show "set (pad w n) \<subseteq> {c. 10 < c \<and> c < 65}"
    using show_nat_digits [of n] by (auto simp: pad_def)
qed

lemma letters_strftime: "letters (strftime d) = str ''utc''"
  by (simp add: strftime_def letters_append letters_pad)
     (simp add: letters_def str_def fold_char_def ascii_lower_def)

lemma ci_char_fold: "ci_char p c \<Longrightarrow> fold_char c = fold_char p"
  by (auto simp: ci_char_def fold_char_def ascii_lower_def split: if_splits)

lemma ci_prefix_split:
  "ci_prefix label s = Some r \<Longrightarrow> \<exists>w. s = w @ r \<and> map fold_char w = map fold_char label"
proof (induction label s rule: ci_prefix.induct)
  case (1 s)
  then show ?case by simp
next
  case (2 p ps)
  then show ?case by simp
next
  case (3 p ps c cs)
  then have m: "ci_char p c" and "ci_prefix ps cs = Some r"
    by (auto split: if_splits)
  with "3.IH" obtain w where "cs = w @ r" "map fold_char w = map fold_char ps"
    by blast
  with ci_char_fold [OF m] have "c # cs = (c # w) @ r \<and> map fold_char (c # w) = map fold_char (p # ps)"
    by simp
  then show ?case by blast
qed

lemma match_field_split:
  assumes "match_field u label s = Some g"
  shows "\<exists>w r. s = w @ r \<and> map fold_char w = map fold_char label"
proof -
  from assms obtain r where "ci_prefix label s = Some r"
    by (auto simp: match_field_def split: option.splits)
  from ci_prefix_split [OF this] show ?thesis by blast
qed

lemma search_field_split:
  "search_field u label s = Some g \<Longrightarrow>
   \<exists>pre w r. s = pre @ w @ r \<and> map fold_char w = map fold_char label"
proof (induction s)
  case Nil
  then have "match_field u label [] = Some g" by simp
  from match_field_split [OF this] show ?case by (metis append_Nil)
next
  case (Cons c cs)
  show ?case
  proof (cases "match_field u label (c # cs)")
    case (Some h)
    from match_field_split [OF this] show ?thesis by (metis append_Nil)
  next
    case None
    with Cons.prems have "search_field u label cs = Some g" by simp
    with Cons.IH obtain pre w r where "cs = pre @ w @ r" "map fold_char w = map fold_char label"
      by blast
    then have "c # cs = (c # pre) @ w @ r \<and> map fold_char w = map fold_char label" by simp
    then show ?thesis by blast
  qed
qed

lemma search_field_letters:
  assumes "search_field u label s = Some g"
  shows "py_in (letters label) (letters s)"
proof -
  from search_field_split [OF assms] obtain pre w r
    where s: "s = pre @ w @ r" and w: "map fold_char w = map fold_char label" by blast
  from w have "letters w = letters label" by (simp add: letters_def)
  with s have "letters s = letters pre @ letters label @ letters r"
    by (simp add: letters_append)
  then show ?thesis unfolding py_in_iff by blast
qed

text \<open>The letters of the report, line by line; the two inserted values leave no letter but the \<open>UTC\<close> of the date.\<close>

lemma letters_report:
  "letters (report_text e n)
   = 10 # unlines (map letters report_head
                   @ [str ''reportiddemo'', str ''analysisdateutc'']
                   @ map letters report_tail)"
proof -
  have a: "letters (str ''Report ID: DEMO-'') = str ''reportiddemo''"
    by (simp add: letters_def str_def fold_char_def ascii_lower_def)
  have b: "letters (str ''Analysis Date: '') @ str ''utc'' = str ''analysisdateutc''"
    by (simp add: letters_def str_def fold_char_def ascii_lower_def)
  show ?thesis
    by (simp add: report_text_def letters_nl letters_unlines letters_append letters_show_int
        letters_strftime a b)
qed

lemma report_letters_eval:
  "map letters report_head @ [str ''reportiddemo'', str ''analysisdateutc''] @ map letters report_tail
   = map str [''agriculturalmonitoringresults'',
      '''',
      ''executivesummary'',
      '''',
      ''reportiddemo'',
      ''analysisdateutc'',
      ''overallassessmentgoodscore'',
      ''risklevelmedium'',
      '''',
      ''crophealthanalysis'',
      '''',
      ''overallhealthgoodscore'',
      ''confidence'',
      '''',
      ''vegetationindices'',
      ''ndvihealthy'',
      ''gndvihealthy'',
      ''ndremoderate'',
      ''savimoderate'',
      ''evimoderate'',
      '''',
      ''healthdistribution'',
      ''healthy'',
      ''stressed'',
      ''unhealthy'',
      '''',
      ''soilconditionanalysis'',
      '''',
      ''overallhealthgoodscore'',
      '''',
      ''soilparameters'',
      ''moistureadequate'',
      ''temperaturecoptimal'',
      ''phoptimal'',
      ''ecdsmnormal'',
      '''',
      ''pestriskanalysis'',
      '''',
      ''overallriskmediumscore'',
      ''confidence'',
      '''',
      ''specificpestrisks'',
      ''aphidsmediumrisk'',
      ''whiteflieslowrisk'',
      ''thripsmediumrisk'',
      ''spidermiteslowrisk'',
      ''caterpillarslowrisk'',
      '''',
      ''recommendations'',
      '''',
      ''crophealthrecommendations'',
      ''maintaincurrentirrigationspotcheckyellowareas'',
      '''',
      ''soilconditionrecommendations'',
      ''ifmoistureapplymmirrigation'',
      '''',
      ''pestmanagementrecommendations'',
      ''mediumpestpressurescouthotspotsbeforespraying'',
      '''',
      ''integratedrecommendations'',
      ''prioritizescoutinginmediumhighriskpatchesthenrecheckindicesindays'',
      '''',
      ''endofresults'']"
  by (simp add: report_head_def report_tail_def letters_def fold_char_def ascii_lower_def str_def)

section \<open>Facts about the synthetic report\<close>

lemma report_letters_absent:
  assumes "10 \<notin> set q" and "q \<noteq> []"
    and "list_all (\<lambda>k. \<not> py_in q k)
           (map letters report_head @ [str ''reportiddemo'', str ''analysisdateutc'']
            @ map letters report_tail)"
  shows "\<not> py_in q (letters (report_text e n))"
  unfolding letters_report using assms by (rule py_in_lines)

lemma no_demo_note: "\<not> py_in (str ''running in DEMO mode'') (report_text e n)"
proof
  assume "py_in (str ''running in DEMO mode'') (report_text e n)"
  then have "py_in (letters (str ''running in DEMO mode'')) (letters (report_text e n))"
    by (rule py_in_letters)
  moreover have "letters (str ''running in DEMO mode'') = str ''runningindemomode''"
    by (simp add: letters_def str_def fold_char_def ascii_lower_def)
  moreover have "\<not> py_in (str ''runningindemomode'') (letters (report_text e n))"
    by (rule report_letters_absent) (unfold report_letters_eval, simp_all add: str_def)
  ultimately show False by simp
qed

lemma no_health_label:
  "search_field u (str ''Overall Crop Health Status:'') (report_text e n) = None"
proof (rule ccontr)
  assume "search_field u (str ''Overall Crop Health Status:'') (report_text e n) \<noteq> None"
  then obtain g where "search_field u (str ''Overall Crop Health Status:'') (report_text e n) = Some g"
    by auto
  then have "py_in (letters (str ''Overall Crop Health Status:'')) (letters (report_text e n))"
    by (rule search_field_letters)
  moreover have "letters (str ''Overall Crop Health Status:'') = str ''overallcrophealthstatus''"
    by (simp add: letters_def str_def fold_char_def ascii_lower_def)
  moreover have "\<not> py_in (str ''overallcrophealthstatus'') (letters (report_text e n))"
    by (rule report_letters_absent) (unfold report_letters_eval, simp_all add: str_def)
  ultimately show False by simp
qed

lemma no_pest_label:
  "search_field u (str ''Overall Pest Risk Level:'') (report_text e n) = None"
proof (rule ccontr)
  assume "search_field u (str ''Overall Pest Risk Level:'') (report_text e n) \<noteq> None"
  then obtain g where "search_field u (str ''Overall Pest Risk Level:'') (report_text e n) = Some g"
    by auto
  then have "py_in (letters (str ''Overall Pest Risk Level:'')) (letters (report_text e n))"
    by (rule search_field_letters)
  moreover have "letters (str ''Overall Pest Risk Level:'') = str ''overallpestrisklevel''"
    by (simp add: letters_def str_def fold_char_def ascii_lower_def)
  moreover have "\<not> py_in (str ''overallpestrisklevel'') (letters (report_text e n))"
    by (rule report_letters_absent) (unfold report_letters_eval, simp_all add: str_def)
  ultimately show False by simp
qed

lemma split_nl_line: "10 \<notin> set l \<Longrightarrow> split_nl (l @ 10 # rest) = l # split_nl rest"
  by (induction l) auto

lemma split_nl_unlines:
  "list_all (\<lambda>l. 10 \<notin> set l) ls \<Longrightarrow> split_nl (unlines ls) = ls @ [[]]"
  by (induction ls) (simp_all add: unlines_def split_nl_line)

lemma show_int_no_nl: "10 \<notin> set (show_int i)"
  using show_nat_digits [of "nat i"] show_nat_digits [of "nat (- i)"]
  by (auto simp: show_int_def)

lemma pad_no_nl: "10 \<notin> set (pad w n)"
  using show_nat_digits [of n] by (auto simp: pad_def)

lemma strftime_no_nl: "10 \<notin> set (strftime d)"
  by (simp add: strftime_def pad_no_nl str_def)

lemma report_lines:
  "split_nl (report_text e n)
   = [] # (report_head
           @ [str ''Report ID: DEMO-'' @ show_int e, str ''Analysis Date: '' @ strftime n]
           @ report_tail) @ [[]]"
proof -
  have "list_all (\<lambda>l. 10 \<notin> set l) report_head" "list_all (\<lambda>l. 10 \<notin> set l) report_tail"
    by (simp_all add: report_head_def report_tail_def str_def)
  moreover have "10 \<notin> set (str ''Report ID: DEMO-'' @ show_int e)"
    "10 \<notin> set (str ''Analysis Date: '' @ strftime n)"
    using show_int_no_nl strftime_no_nl by (simp_all add: str_def)
  ultimately have "split_nl (unlines (report_head
           @ [str ''Report ID: DEMO-'' @ show_int e, str ''Analysis Date: '' @ strftime n]
           @ report_tail)) = (report_head
           @ [str ''Report ID: DEMO-'' @ show_int e, str ''Analysis Date: '' @ strftime n]
           @ report_tail) @ [[]]"
    by (intro split_nl_unlines) simp
  then show ?thesis
    by (simp add: report_text_def)
qed

section \<open>Facts about the orchestrator\<close>

lemmas world_eval =
  world0_def getenv_def demo_forced_def strict_def engine_cmd_def invoke_def captured_def
  is_demo_def image_urls_def demo_reply_def generate_demo_results_def
  run_matlab_def command_line_def

lemma mode_distinct: "str ''matlab'' \<noteq> str ''demo''"
  by (simp add: str_def)

lemma demo_reply_ok:
  "\<not> run_as_main w \<Longrightarrow> write_maps w = None \<Longrightarrow> listdir w = Inr files \<Longrightarrow>
   demo_reply w before
   = Result (before @ report_text (time_time w) (utcnow w)) (image_urls files)
       (before @ report_text (time_time w) (utcnow w)) (str ''demo'')"
  by (simp add: demo_reply_def generate_demo_results_def)

lemma demo_reply_unbound: "run_as_main w \<Longrightarrow> demo_reply w before = Error name_error None"
  by (simp add: demo_reply_def)

lemma run_forced: "demo_forced w \<Longrightarrow> run_matlab u w = demo_reply w []"
  by (simp add: run_matlab_def demo_forced_def)

lemma run_unavailable:
  "\<not> demo_forced w \<Longrightarrow> which w (engine_cmd w) = None \<Longrightarrow> \<not> strict w \<Longrightarrow>
   run_matlab u w = demo_reply w not_on_path"
  by (simp add: run_matlab_def demo_forced_def strict_def engine_cmd_def Let_def)

lemma run_raised:
  "\<not> demo_forced w \<Longrightarrow> \<not> (which w (engine_cmd w) = None \<and> \<not> strict w) \<Longrightarrow>
   invoke w = Inl e \<Longrightarrow> run_matlab u w = Error e None"
  by (auto simp: run_matlab_def demo_forced_def strict_def engine_cmd_def invoke_def Let_def)

lemma run_exit_zero:
  "\<not> demo_forced w \<Longrightarrow> \<not> (which w (engine_cmd w) = None \<and> \<not> strict w) \<Longrightarrow>
   invoke w = Inr p \<Longrightarrow> returncode p = 0 \<Longrightarrow>
   run_matlab u w
   = (case listdir w of
        Inl e \<Rightarrow> Error e None
      | Inr files \<Rightarrow> Result (stdout p) (image_urls files) (stdout p) (str ''matlab''))"
  by (auto simp: run_matlab_def demo_forced_def strict_def engine_cmd_def invoke_def Let_def)

lemma run_exit_nonzero:
  "\<not> demo_forced w \<Longrightarrow> \<not> (which w (engine_cmd w) = None \<and> \<not> strict w) \<Longrightarrow>
   invoke w = Inr p \<Longrightarrow> returncode p \<noteq> 0 \<Longrightarrow>
   run_matlab u w
   = (if ((py_in (str ''not found'') (py_lower u (captured p))
           \<and> py_in (str ''matlab'') (py_lower u (captured p)))
          \<or> returncode p = 127) \<and> \<not> strict w
      then demo_reply w (command_failed @ captured p @ str ''\<newline>\<newline>'')
      else Error (str ''MATLAB script execution failed.'') (Some (captured p)))"
  by (auto simp: run_matlab_def demo_forced_def strict_def engine_cmd_def invoke_def captured_def
      Let_def)

section \<open>Facts about the chat assistant\<close>

lemma base_profit_float:
  "py_int (base_profit h p)
   = py_int (fmul (fmul 1000 (fl (spec_health_mult h))) (fl (spec_pest_mult p)))"
  by (simp add: base_profit_def spec_health_mult_def spec_pest_mult_def status_distinct
      health_facts pest_facts Let_def)

lemma base_profit_exact:
  "py_int (base_profit h p) = \<lfloor>1000 * spec_health_mult h * spec_pest_mult p\<rfloor>"
  by (simp add: base_profit_def spec_health_mult_def spec_pest_mult_def status_distinct
      health_facts pest_facts Let_def)

lemma profit_branch:
  "context \<noteq> [] \<Longrightarrow> py_in (str ''profit'') (py_lower u question) \<Longrightarrow>
   get_ai_response u question context
   = profit_reply (py_int (base_profit (health_status u context) (pest_status u context)))"
  by (simp add: get_ai_response_def Let_def)

lemma All_le_Suc: "(\<forall>i\<le>Suc n. P i) = (P (Suc n) \<and> (\<forall>i\<le>n. P i))"
  by (auto simp: le_Suc_eq)

lemma is_word_not_space: "is_word u c \<Longrightarrow> \<not> is_space c"
  by (auto simp: is_word_def is_space_def)

lemma ci_prefix_match: "list_all2 ci_char label lab \<Longrightarrow> ci_prefix label (lab @ r) = Some r"
  by (induction rule: list_all2_induct) simp_all

lemma ci_prefix_Some:
  "ci_prefix label s = Some r \<Longrightarrow> \<exists>lab. s = lab @ r \<and> list_all2 ci_char label lab"
proof (induction label s rule: ci_prefix.induct)
  case (1 s)
  then show ?case by simp
next
  case (2 p ps)
  then show ?case by simp
next
  case (3 p ps c cs)
  then have m: "ci_char p c" and "ci_prefix ps cs = Some r"
    by (auto split: if_splits)
  with "3.IH" obtain lab where "cs = lab @ r" "list_all2 ci_char ps lab"
    by blast
  with m have "c # cs = (c # lab) @ r \<and> list_all2 ci_char (p # ps) (c # lab)"
    by simp
  then show ?case by blast
qed

lemma match_field_found:
  assumes "list_all2 ci_char label lab" and "\<forall>x\<in>set ws. is_space x" and "word \<noteq> []"
    and "\<forall>x\<in>set word. is_word u x" and "rest = [] \<or> \<not> is_word u (hd rest)"
  shows "match_field u label (lab @ ws @ word @ rest) = Some word"
proof -
  from assms(3) obtain c cs where w: "word = c # cs" by (cases word) auto
  with assms(4) have "is_word u c" by simp
  then have "\<not> is_space c" by (rule is_word_not_space)
  with assms(2) have d: "dropWhile is_space (ws @ word @ rest) = word @ rest"
    by (simp add: w dropWhile_append3)
  have "takeWhile (is_word u) rest = []"
    using assms(5) by (cases rest) auto
  with assms(4) have t: "takeWhile (is_word u) (word @ rest) = word"
    by (simp add: takeWhile_append2)
  from ci_prefix_match [OF assms(1)] d t assms(3) show ?thesis
    by (simp add: match_field_def)
qed

lemma match_field_Some:
  assumes "match_field u label s = Some g"
  shows "\<exists>lab ws rest. s = lab @ ws @ g @ rest \<and> list_all2 ci_char label lab
           \<and> (\<forall>x\<in>set ws. is_space x) \<and> g \<noteq> [] \<and> (\<forall>x\<in>set g. is_word u x)
           \<and> (rest = [] \<or> \<not> is_word u (hd rest))"
proof -
  from assms obtain r where r: "ci_prefix label s = Some r"
    and g: "g = takeWhile (is_word u) (dropWhile is_space r)" and ne: "g \<noteq> []"
    by (auto simp: match_field_def Let_def split: option.splits if_splits)
  from ci_prefix_Some [OF r] obtain lab where lab: "s = lab @ r" "list_all2 ci_char label lab"
    by blast
  let ?ws = "takeWhile is_space r" and ?rest = "dropWhile (is_word u) (dropWhile is_space r)"
  have "?ws @ g @ ?rest = r"
    by (simp add: g)
  with lab(1) have "s = lab @ ?ws @ g @ ?rest"
    by simp
  moreover have "\<forall>x\<in>set ?ws. is_space x"
    by (auto dest: set_takeWhileD)
  moreover have "\<forall>x\<in>set g. is_word u x"
    unfolding g by (auto dest: set_takeWhileD)
  moreover have "?rest = [] \<or> \<not> is_word u (hd ?rest)"
    by (metis hd_dropWhile)
  ultimately show ?thesis
    using lab(2) ne by blast
qed

lemma field_here_iff: "field_here u label s \<longleftrightarrow> match_field u label s \<noteq> None"
proof
  assume "field_here u label s"
  then obtain lab ws c rest where s: "s = lab @ ws @ c # rest" and l: "list_all2 ci_char label lab"
    and w: "\<forall>x\<in>set ws. is_space x" and c: "is_word u c"
    by (auto simp: field_here_def)
  from c have "\<not> is_space c" by (rule is_word_not_space)
  with w have "dropWhile is_space (ws @ c # rest) = c # rest"
    by (simp add: dropWhile_append3)
  with ci_prefix_match [OF l] c show "match_field u label s \<noteq> None"
    by (simp add: match_field_def s)
next
  assume "match_field u label s \<noteq> None"
  then obtain g where "match_field u label s = Some g" by auto
  from match_field_Some [OF this] obtain lab ws rest where
    s: "s = lab @ ws @ g @ rest" and l: "list_all2 ci_char label lab"
    and w: "\<forall>x\<in>set ws. is_space x" and g: "g \<noteq> []" "\<forall>x\<in>set g. is_word u x"
    by blast
  from g obtain c cs where "g = c # cs" "is_word u c" by (cases g) auto
  with s l w show "field_here u label s"
    unfolding field_here_def by (intro exI [of _ lab] exI [of _ ws] exI [of _ c] exI [of _ "cs @ rest"]) simp
qed

lemma search_field_skip:
  "\<forall>i<length pre. match_field u label (drop i (pre @ s)) = None \<Longrightarrow>
   search_field u label (pre @ s) = search_field u label s"
proof (induction pre)
  case Nil
  then show ?case by simp
next
  case (Cons c pre)
  from Cons.prems have h: "match_field u label (c # pre @ s) = None"
    by (metis append_Cons drop0 length_greater_0_conv list.distinct(1))
  have "\<forall>i<length pre. match_field u label (drop i (pre @ s)) = None"
  proof (intro allI impI)
    fix i assume "i < length pre"
    then have "Suc i < length (c # pre)" by simp
    with Cons.prems have "match_field u label (drop (Suc i) ((c # pre) @ s)) = None"
      by blast
    then show "match_field u label (drop i (pre @ s)) = None" by simp
  qed
  from Cons.IH [OF this] h show ?case
    by simp
qed

lemma search_field_here:
  "match_field u label s = Some g \<Longrightarrow> search_field u label s = Some g"
  by (cases s) simp_all

lemma search_field_absent:
  "\<forall>i\<le>length s. match_field u label (drop i s) = None \<Longrightarrow> search_field u label s = None"
proof (induction s)
  case Nil
  then show ?case by simp
next
  case (Cons c s)
  from Cons.prems have h: "match_field u label (drop 0 (c # s)) = None"
    by blast
  have "\<forall>i\<le>length s. match_field u label (drop i s) = None"
  proof (intro allI impI)
    fix i assume "i \<le> length s"
    then have "Suc i \<le> length (c # s)" by simp
    with Cons.prems have "match_field u label (drop (Suc i) (c # s)) = None" by blast
    then show "match_field u label (drop i s) = None" by simp
  qed
  from Cons.IH [OF this] h show ?case by simp
qed

lemma search_field_first:
  "search_field u label s = Some g \<Longrightarrow>
   \<exists>i\<le>length s. match_field u label (drop i s) = Some g
      \<and> (\<forall>j<i. match_field u label (drop j s) = None)"
proof (induction s)
  case Nil
  then show ?case by simp
next
  case (Cons c s)
  show ?case
  proof (cases "match_field u label (c # s)")
    case (Some h)
    with Cons.prems have "match_field u label (drop 0 (c # s)) = Some g" by simp
    then show ?thesis by blast
  next
    case None
    with Cons.prems have "search_field u label s = Some g" by simp
    from Cons.IH [OF this] obtain i where i: "i \<le> length s" "match_field u label (drop i s) = Some g"
      "\<forall>j<i. match_field u label (drop j s) = None"
      by blast
    have "\<forall>j<Suc i. match_field u label (drop j (c # s)) = None"
    proof (intro allI impI)
      fix j assume "j < Suc i"
      then show "match_field u label (drop j (c # s)) = None"
        using None i(3) by (cases j) simp_all
    qed
    with i(1,2) show ?thesis
      by (intro exI [of _ "Suc i"]) simp
  qed
qed

lemma search_field_None:
  "search_field u label s = None \<Longrightarrow> \<forall>i\<le>length s. match_field u label (drop i s) = None"
proof (induction s)
  case Nil
  then show ?case by simp
next
  case (Cons c s)
  from Cons.prems have h: "match_field u label (c # s) = None" and "search_field u label s = None"
    by (auto split: option.splits)
  from Cons.IH [OF this(2)] have r: "\<forall>i\<le>length s. match_field u label (drop i s) = None" .
  show ?case
  proof (intro allI impI)
    fix i assume "i \<le> length (c # s)"
    then show "match_field u label (drop i (c # s)) = None"
      using h r by (cases i) simp_all
  qed
qed

lemma field_value_iff:
  "field_value u label context s
   \<longleftrightarrow> s = (case search_field u label context of Some g \<Rightarrow> py_lower u g | None \<Rightarrow> str ''unknown'')"
proof
  assume "field_value u label context s"
  then show "s = (case search_field u label context of Some g \<Rightarrow> py_lower u g | None \<Rightarrow> str ''unknown'')"
  proof cases
    case (found pre lab ws word rest)
    have "match_field u label (lab @ ws @ word @ rest) = Some word"
      using found(3-7) by (rule match_field_found)
    then have "search_field u label (lab @ ws @ word @ rest) = Some word"
      by (rule search_field_here)
    moreover have "search_field u label (pre @ lab @ ws @ word @ rest)
                   = search_field u label (lab @ ws @ word @ rest)"
      using found(8) unfolding found(2) field_here_iff by (intro search_field_skip) simp
    ultimately show ?thesis
      by (simp add: found(1,2))
  next
    case missing
    then have "search_field u label context = None"
      unfolding field_here_iff by (intro search_field_absent) simp
    with missing(1) show ?thesis by simp
  qed
next
  assume s: "s = (case search_field u label context of Some g \<Rightarrow> py_lower u g | None \<Rightarrow> str ''unknown'')"
  show "field_value u label context s"
  proof (cases "search_field u label context")
    case None
    from search_field_None [OF this] have "\<forall>i\<le>length context. \<not> field_here u label (drop i context)"
      by (simp add: field_here_iff)
    then have "field_value u label context (str ''unknown'')"
      by (rule field_value.missing)
    with s None show ?thesis by simp
  next
    case (Some g)
    from search_field_first [OF this] obtain i where i: "i \<le> length context"
      "match_field u label (drop i context) = Some g"
      "\<forall>j<i. match_field u label (drop j context) = None"
      by blast
    from match_field_Some [OF i(2)] obtain lab ws rest where
      d: "drop i context = lab @ ws @ g @ rest" and l: "list_all2 ci_char label lab"
      and w: "\<forall>x\<in>set ws. is_space x" and g: "g \<noteq> []" "\<forall>x\<in>set g. is_word u x"
      and r: "rest = [] \<or> \<not> is_word u (hd rest)"
      by blast
    have c: "context = take i context @ lab @ ws @ g @ rest"
      using d by (metis append_take_drop_id)
    have "\<forall>j<length (take i context). \<not> field_here u label (drop j context)"
      using i(1,3) by (simp add: field_here_iff)
    with c l w g r have "field_value u label context (py_lower u g)"
      by (rule field_value.found)
    with s Some show ?thesis by simp
  qed
qed

lemma no_field_before_iff:
  "no_field_before u label pre s
   \<longleftrightarrow> (\<forall>i<length pre. \<not> field_here u label (drop i (pre @ s)))"
proof (induction pre)
  case Nil
  then show ?case by simp
next
  case (Cons c pre)
  have "(\<forall>i<length (c # pre). \<not> field_here u label (drop i ((c # pre) @ s)))
        \<longleftrightarrow> (\<not> field_here u label (c # pre @ s)
             \<and> (\<forall>i<length pre. \<not> field_here u label (drop i (pre @ s))))"
    by (simp add: All_less_Suc2)
  with Cons.IH show ?case
    by (simp add: field_here_iff)
qed

lemma field_absent_iff:
  "(\<forall>i\<le>length s. \<not> field_here u label (drop i s)) \<longleftrightarrow> search_field u label s = None"
  using search_field_absent [of s u label] search_field_None [of u label s]
  by (auto simp: field_here_iff)

text \<open>
  Claim C9. With an empty report context the reply is one of two fixed messages, whatever
  else the question says: the "run the analysis first" message when the lower-cased question
  contains "profit", the generic "no analysis yet" message otherwise. The two messages
  differ, and neither depends on any extraction or profit computation.
\<close>

theorem empty_context_reply:
  "get_ai_response u question []
   = (if py_in (str ''profit'') (py_lower u question) then no_profit_yet else no_analysis_yet)
   \<and> no_profit_yet \<noteq> no_analysis_yet
   \<and> no_profit_yet = str ''I can only calculate potential profit after an analysis has been run. Please run the analysis first.''
   \<and> no_analysis_yet = str ''I don't have any analysis results to work with yet. Please click 'Run Analysis' first.''"
  by (simp add: get_ai_response_def Let_def no_profit_yet_def no_analysis_yet_def str_def)

theorem empty_context_reply_witness:
  "get_ai_response latin1 (str ''Expected PROFIT and pest risk?'') [] = no_profit_yet
   \<and> get_ai_response latin1 (str ''What about pests?'') [] = no_analysis_yet"
proof -
  have a: "py_in (str ''profit'') (py_lower latin1 (str ''Expected PROFIT and pest risk?''))"
    by (simp add: text_eval)
  have b: "\<not> py_in (str ''profit'') (py_lower latin1 (str ''What about pests?''))"
    by (simp add: text_eval)
  show ?thesis
    using empty_context_reply [of latin1 "str ''Expected PROFIT and pest risk?''"]
      empty_context_reply [of latin1 "str ''What about pests?''"] a b
    by simp
qed

text \<open>
  Claim C7. With a non-empty report context the question is lower-cased and the first
  matching keyword decides, in the order "profit", "crop health", "soil" or "moisture",
  "pest", "recommendations". A question with "profit" takes the profit path whatever else it
  contains, so one with both "profit" and "pest" never reaches the pest path; a question
  with none of the keywords gets the fixed capability message.
\<close>

theorem dispatch_first_match:
  assumes "context \<noteq> []" and "m = py_lower u question"
  shows
    "(py_in (str ''profit'') m \<longrightarrow>
        get_ai_response u question context
        = profit_reply (py_int (base_profit (health_status u context) (pest_status u context))))
   \<and> (\<not> py_in (str ''profit'') m \<and> py_in (str ''crop health'') m \<longrightarrow>
        get_ai_response u question context
        = section_reply
            (search_section (str ''CROP HEALTH ANALYSIS'') 20 (str ''SOIL CONDITION ANALYSIS'') context)
            (str ''I couldn't find the Crop Health section in the analysis.''))
   \<and> (\<not> py_in (str ''profit'') m \<and> \<not> py_in (str ''crop health'') m
        \<and> (py_in (str ''soil'') m \<or> py_in (str ''moisture'') m) \<longrightarrow>
        get_ai_response u question context
        = section_reply
            (search_section (str ''SOIL CONDITION ANALYSIS'') 23 (str ''PEST RISK ANALYSIS'') context)
            (str ''I couldn't find the Soil Condition section in the analysis.''))
   \<and> (\<not> py_in (str ''profit'') m \<and> \<not> py_in (str ''crop health'') m
        \<and> \<not> py_in (str ''soil'') m \<and> \<not> py_in (str ''moisture'') m
        \<and> py_in (str ''pest'') m \<longrightarrow>
        get_ai_response u question context
        = section_reply
            (search_section (str ''PEST RISK ANALYSIS'') 18 (str ''RECOMMENDATIONS'') context)
            (str ''I couldn't find the Pest Risk section in the analysis.''))
   \<and> (\<not> py_in (str ''profit'') m \<and> \<not> py_in (str ''crop health'') m
        \<and> \<not> py_in (str ''soil'') m \<and> \<not> py_in (str ''moisture'') m
        \<and> \<not> py_in (str ''pest'') m \<and> py_in (str ''recommendations'') m \<longrightarrow>
        get_ai_response u question context
        = section_reply
            (search_tail (str ''RECOMMENDATIONS'') 15 context)
            (str ''I couldn't find any recommendations in the analysis.''))
   \<and> (\<not> py_in (str ''profit'') m \<and> \<not> py_in (str ''crop health'') m
        \<and> \<not> py_in (str ''soil'') m \<and> \<not> py_in (str ''moisture'') m
        \<and> \<not> py_in (str ''pest'') m \<and> \<not> py_in (str ''recommendations'') m \<longrightarrow>
        get_ai_response u question context = capabilities)
   \<and> capabilities = str ''I can answer questions about crop health, soil conditions, pest risk, and potential profit. What would you like to know?''"
  using assms by (simp add: get_ai_response_def Let_def capabilities_def)

theorem dispatch_first_match_witness:
  "str ''PEST RISK ANALYSIS\<newline>==================\<newline>Overall Risk: Medium\<newline>RECOMMENDATIONS\<newline>===============\<newline>Scout.'' \<noteq> []
   \<and> get_ai_response latin1 (str ''Profit lost to PEST damage?'')
        (str ''PEST RISK ANALYSIS\<newline>==================\<newline>Overall Risk: Medium\<newline>RECOMMENDATIONS\<newline>===============\<newline>Scout.'')
      = profit_reply 1000
   \<and> get_ai_response latin1 (str ''What about pests?'')
        (str ''PEST RISK ANALYSIS\<newline>==================\<newline>Overall Risk: Medium\<newline>RECOMMENDATIONS\<newline>===============\<newline>Scout.'')
      = str ''Overall Risk: Medium''
   \<and> get_ai_response latin1 (str ''Hello there'')
        (str ''PEST RISK ANALYSIS\<newline>==================\<newline>Overall Risk: Medium\<newline>RECOMMENDATIONS\<newline>===============\<newline>Scout.'')
      = capabilities"
  (is "?c \<noteq> [] \<and> ?r1 \<and> ?r2 \<and> ?r3")
proof -
  have ne: "?c \<noteq> []"
    by (simp add: str_def)
  have q1: "py_in (str ''profit'') (py_lower latin1 (str ''Profit lost to PEST damage?''))"
    by (simp add: text_eval)
  have q2:
    "\<not> py_in (str ''profit'') (py_lower latin1 (str ''What about pests?''))"
    "\<not> py_in (str ''crop health'') (py_lower latin1 (str ''What about pests?''))"
    "\<not> py_in (str ''soil'') (py_lower latin1 (str ''What about pests?''))"
    "\<not> py_in (str ''moisture'') (py_lower latin1 (str ''What about pests?''))"
    "py_in (str ''pest'') (py_lower latin1 (str ''What about pests?''))"
    by (simp_all add: text_eval)
  have q3:
    "\<not> py_in (str ''profit'') (py_lower latin1 (str ''Hello there''))"
    "\<not> py_in (str ''crop health'') (py_lower latin1 (str ''Hello there''))"
    "\<not> py_in (str ''soil'') (py_lower latin1 (str ''Hello there''))"
    "\<not> py_in (str ''moisture'') (py_lower latin1 (str ''Hello there''))"
    "\<not> py_in (str ''pest'') (py_lower latin1 (str ''Hello there''))"
    "\<not> py_in (str ''recommendations'') (py_lower latin1 (str ''Hello there''))"
    by (simp_all add: text_eval)
  have "health_status latin1 ?c = str ''unknown''" "pest_status latin1 ?c = str ''unknown''"
    by (simp_all add: text_eval)
  then have v1: "py_int (base_profit (health_status latin1 ?c) (pest_status latin1 ?c)) = 1000"
    by (simp add: base_profit_def str_def pest_facts)
  have v2:
    "section_reply (search_section (str ''PEST RISK ANALYSIS'') 18 (str ''RECOMMENDATIONS'') ?c)
       (str ''I couldn't find the Pest Risk section in the analysis.'')
     = str ''Overall Risk: Medium''"
    by (simp add: text_eval)
  have ?r1
    using dispatch_first_match [OF ne refl, of latin1 "str ''Profit lost to PEST damage?''"] q1 v1
    by simp
  moreover have ?r2
    using dispatch_first_match [OF ne refl, of latin1 "str ''What about pests?''"] q2 v2
    by simp
  moreover have ?r3
    using dispatch_first_match [OF ne refl, of latin1 "str ''Hello there''"] q3
    by simp
  ultimately show ?thesis
    using ne by simp
qed

text \<open>
  Claim C3, as stated, ends with: a report containing \<^verbatim>\<open>Overall Crop Health Status: Good\<close>
  and \<^verbatim>\<open>Overall Pest Risk Level: Low\<close> yields the estimate 1320. The search takes the first
  place of the report where the label is followed by a word. A report that has the line
  \<^verbatim>\<open>Overall Crop Health Status: Poor\<close> before these two contains both of them and yields 660.
\<close>

theorem profit_first_field_counterexample:
  "py_in (str ''Overall Crop Health Status: Good'')
     (str ''Overall Crop Health Status: Poor\<newline>Overall Crop Health Status: Good\<newline>Overall Pest Risk Level: Low'')
   \<and> py_in (str ''Overall Pest Risk Level: Low'')
       (str ''Overall Crop Health Status: Poor\<newline>Overall Crop Health Status: Good\<newline>Overall Pest Risk Level: Low'')
   \<and> get_ai_response latin1 (str ''Expected profit?'')
       (str ''Overall Crop Health Status: Poor\<newline>Overall Crop Health Status: Good\<newline>Overall Pest Risk Level: Low'')
     = str ''Based on the analysis, the estimated potential profit is around $660 per unit area. This is an estimate based on crop health and pest risk.''"
  (is "?a \<and> ?b \<and> get_ai_response latin1 ?q ?c = ?r")
proof -
  have a: ?a and b: ?b
    by (simp_all add: str_def)
  have ne: "?c \<noteq> []"
    by (simp add: str_def)
  have q: "py_in (str ''profit'') (py_lower latin1 ?q)"
    by (simp add: text_eval)
  have h: "health_status latin1 ?c = str ''poor''"
    by (simp add: text_eval)
  have p: "pest_status latin1 ?c = str ''low''"
    by (simp add: text_eval)
  have n: "py_int (base_profit (str ''poor'') (str ''low'')) = 660"
    by (simp add: base_profit_exact) (simp add: spec_health_mult_def spec_pest_mult_def str_def)
  have "show_nat 660 = str ''660''"
    by (simp add: text_eval)
  then have t: "profit_reply 660 = ?r"
    by (simp add: profit_reply_def show_int_def str_def)
  from profit_branch [OF ne q] h p n t have "get_ai_response latin1 ?q ?c = ?r"
    by simp
  with a b show ?thesis
    by simp
qed

text \<open>
  Claim C3, amended. On the profit path the number in the reply is
  \<open>int(1000 * healthMult * pestMult)\<close>, the two products taken in double precision and the
  result truncated, with the multipliers of the specification's table: 1.2, 0.9, 0.6 for the
  health status good, moderate, poor; 1.1, 0.8, 0.5 for the pest level low, medium, high;
  and 1.0 for any other status. The rounding never changes the truncated result: it is the
  floor of the exact product. The status of a label is its value in the report (\<open>field_value\<close>):
  the lower-cased word at the first place where the label, in any case, is followed by a
  word, and \<^verbatim>\<open>unknown\<close> when there is no such place; every report has such a status for
  either label. In particular, a report in which the first such place of either label reads
  \<^verbatim>\<open>Overall Crop Health Status: Good\<close> and \<^verbatim>\<open>Overall Pest Risk Level: Low\<close>, the value
  ending there, gives 1320.
\<close>

theorem profit_estimate:
  assumes "context \<noteq> []" and "py_in (str ''profit'') (py_lower u question)"
  shows
    "(\<exists>h p. field_value u (str ''Overall Crop Health Status:'') context h
          \<and> field_value u (str ''Overall Pest Risk Level:'') context p)
     \<and> (field_value u (str ''Overall Crop Health Status:'') context h
        \<and> field_value u (str ''Overall Pest Risk Level:'') context p \<longrightarrow>
          get_ai_response u question context
          = profit_reply (py_int (fmul (fmul 1000 (fl (spec_health_mult h))) (fl (spec_pest_mult p))))
          \<and> py_int (fmul (fmul 1000 (fl (spec_health_mult h))) (fl (spec_pest_mult p)))
            = \<lfloor>1000 * spec_health_mult h * spec_pest_mult p\<rfloor>)
     \<and> (context = pre @ str ''Overall Crop Health Status: Good'' @ rest
        \<and> (rest = [] \<or> \<not> is_word u (hd rest))
        \<and> (\<forall>i<length pre. \<not> field_here u (str ''Overall Crop Health Status:'') (drop i context))
        \<and> context = pre' @ str ''Overall Pest Risk Level: Low'' @ rest'
        \<and> (rest' = [] \<or> \<not> is_word u (hd rest'))
        \<and> (\<forall>i<length pre'. \<not> field_here u (str ''Overall Pest Risk Level:'') (drop i context)) \<longrightarrow>
          get_ai_response u question context = profit_reply 1320)"
proof -
  let ?H = "str ''Overall Crop Health Status:''" and ?P = "str ''Overall Pest Risk Level:''"
  have r: "get_ai_response u question context
           = profit_reply (py_int (base_profit (health_status u context) (pest_status u context)))"
    using assms by (rule profit_branch)
  have hv: "field_value u ?H context h \<longleftrightarrow> h = health_status u context" for h
    by (simp add: field_value_iff health_status_def)
  have pv: "field_value u ?P context p \<longleftrightarrow> p = pest_status u context" for p
    by (simp add: field_value_iff pest_status_def)
  have a: "\<exists>h p. field_value u ?H context h \<and> field_value u ?P context p"
    using hv pv by blast
  have b: "get_ai_response u question context
           = profit_reply (py_int (fmul (fmul 1000 (fl (spec_health_mult h))) (fl (spec_pest_mult p))))
         \<and> py_int (fmul (fmul 1000 (fl (spec_health_mult h))) (fl (spec_pest_mult p)))
           = \<lfloor>1000 * spec_health_mult h * spec_pest_mult p\<rfloor>"
    if "field_value u ?H context h \<and> field_value u ?P context p"
  proof -
    from that hv pv have e: "h = health_status u context" "p = pest_status u context"
      by simp_all
    show ?thesis
      using r base_profit_float [of h p] base_profit_exact [of h p] unfolding e by simp
  qed
  have c: "get_ai_response u question context = profit_reply 1320"
    if g: "context = pre @ str ''Overall Crop Health Status: Good'' @ rest
        \<and> (rest = [] \<or> \<not> is_word u (hd rest))
        \<and> (\<forall>i<length pre. \<not> field_here u ?H (drop i context))
        \<and> context = pre' @ str ''Overall Pest Risk Level: Low'' @ rest'
        \<and> (rest' = [] \<or> \<not> is_word u (hd rest'))
        \<and> (\<forall>i<length pre'. \<not> field_here u ?P (drop i context))"
  proof -
    have same: "list_all2 ci_char l l" for l
      by (simp add: list_all2_same ci_char_def)
    have sp: "\<forall>x\<in>set (str '' ''). is_space x"
      by (simp add: str_def is_space_def)
    have wg: "str ''Good'' \<noteq> []" "\<forall>x\<in>set (str ''Good''). is_word u x"
      and wl: "str ''Low'' \<noteq> []" "\<forall>x\<in>set (str ''Low''). is_word u x"
      by (simp_all add: str_def is_word_def)
    have lg: "py_lower u (str ''Good'') = str ''good''" and ll: "py_lower u (str ''Low'') = str ''low''"
      by (simp_all add: str_def py_lower_def ascii_lower_def)
    have "str ''Overall Crop Health Status: Good'' = ?H @ str '' '' @ str ''Good''"
      and "str ''Overall Pest Risk Level: Low'' = ?P @ str '' '' @ str ''Low''"
      by (simp_all add: str_def)
    with g have ch: "context = pre @ ?H @ str '' '' @ str ''Good'' @ rest"
      and cp: "context = pre' @ ?P @ str '' '' @ str ''Low'' @ rest'"
      by (metis append_assoc)+
    from g have eh: "rest = [] \<or> \<not> is_word u (hd rest)"
      and fh: "\<forall>i<length pre. \<not> field_here u ?H (drop i context)"
      and ep: "rest' = [] \<or> \<not> is_word u (hd rest')"
      and fp: "\<forall>i<length pre'. \<not> field_here u ?P (drop i context)"
      by blast+
    have "field_value u ?H context (py_lower u (str ''Good''))"
      by (rule field_value.found [OF ch same sp wg eh fh])
    then have h: "health_status u context = str ''good''"
      by (simp add: hv lg)
    have "field_value u ?P context (py_lower u (str ''Low''))"
      by (rule field_value.found [OF cp same sp wl ep fp])
    then have p: "pest_status u context = str ''low''"
      by (simp add: pv ll)
    have "py_int (base_profit (str ''good'') (str ''low'')) = 1320"
      by (simp add: base_profit_def Let_def status_distinct health_facts pest_facts)
    with r h p show ?thesis
      by simp
  qed
  from a b c show ?thesis
    by blast
qed

theorem profit_estimate_witness:
  "str ''Overall Crop Health Status: Good\<newline>Overall Pest Risk Level: Low'' \<noteq> []
   \<and> py_in (str ''profit'') (py_lower latin1 (str ''What PROFIT can I expect?''))
   \<and> get_ai_response latin1 (str ''What PROFIT can I expect?'')
        (str ''Overall Crop Health Status: Good\<newline>Overall Pest Risk Level: Low'')
      = str ''Based on the analysis, the estimated potential profit is around $1320 per unit area. This is an estimate based on crop health and pest risk.''
   \<and> field_value latin1 (str ''Overall Crop Health Status:'')
        (str ''Field 7\<newline>overall crop health status:   MODERATE (0.61)\<newline>'') (str ''moderate'')
   \<and> field_value latin1 (str ''Overall Pest Risk Level:'')
        (str ''Field 7\<newline>overall crop health status:   MODERATE (0.61)\<newline>'') (str ''unknown'')
   \<and> get_ai_response latin1 (str ''What PROFIT can I expect?'')
        (str ''Field 7\<newline>overall crop health status:   MODERATE (0.61)\<newline>'')
      = str ''Based on the analysis, the estimated potential profit is around $900 per unit area. This is an estimate based on crop health and pest risk.''"
  (is "?c \<noteq> [] \<and> ?q \<and> get_ai_response latin1 ?m ?c = ?r \<and> ?fh \<and> ?fp
       \<and> get_ai_response latin1 ?m ?d = ?s")
proof -
  let ?H = "str ''Overall Crop Health Status:''" and ?P = "str ''Overall Pest Risk Level:''"
  have ne: "?c \<noteq> []" "?d \<noteq> []"
    by (simp_all add: str_def)
  have q: ?q
    by (simp add: text_eval)
  have "show_nat 1320 = str ''1320''" "show_nat 900 = str ''900''"
    by (simp_all add: text_eval)
  then have t: "profit_reply 1320 = ?r" "profit_reply 900 = ?s"
    by (simp_all add: profit_reply_def show_int_def str_def)
  have c1: "?c = [] @ str ''Overall Crop Health Status: Good'' @ str ''\<newline>Overall Pest Risk Level: Low''"
    and c2: "?c = str ''Overall Crop Health Status: Good\<newline>'' @ str ''Overall Pest Risk Level: Low'' @ []"
    by (simp_all add: str_def)
  have e: "str ''\<newline>Overall Pest Risk Level: Low'' = []
           \<or> \<not> is_word latin1 (hd (str ''\<newline>Overall Pest Risk Level: Low''))"
    by (simp add: text_eval)
  have "no_field_before latin1 ?P (str ''Overall Crop Health Status: Good\<newline>'')
          (str ''Overall Pest Risk Level: Low'')"
    by (simp add: text_eval)
  then have f: "\<forall>i<length (str ''Overall Crop Health Status: Good\<newline>''). \<not> field_here latin1 ?P (drop i ?c)"
    unfolding no_field_before_iff c2 by simp
  from profit_estimate [OF ne(1) q, where pre = "[]" and rest = "str ''\<newline>Overall Pest Risk Level: Low''"
      and pre' = "str ''Overall Crop Health Status: Good\<newline>''" and rest' = "[]"] c1 c2 e f
  have r1: "get_ai_response latin1 ?m ?c = profit_reply 1320"
    by simp
  have d1: "?d = str ''Field 7\<newline>'' @ str ''overall crop health status:'' @ str ''   ''
                 @ str ''MODERATE'' @ str '' (0.61)\<newline>''"
    by (simp add: str_def)
  have fh: ?fh
  proof -
    have "field_value latin1 ?H ?d (py_lower latin1 (str ''MODERATE''))"
    proof (rule field_value.found [OF d1])
      show "list_all2 ci_char ?H (str ''overall crop health status:'')"
        by (simp add: str_def ci_char_def ascii_lower_def)
      show "\<forall>x\<in>set (str ''   ''). is_space x"
        by (simp add: str_def is_space_def)
      show "str ''MODERATE'' \<noteq> []" "\<forall>x\<in>set (str ''MODERATE''). is_word latin1 x"
        by (simp_all add: str_def is_word_def)
      show "str '' (0.61)\<newline>'' = [] \<or> \<not> is_word latin1 (hd (str '' (0.61)\<newline>''))"
        by (simp add: text_eval)
      have "no_field_before latin1 ?H (str ''Field 7\<newline>'')
              (str ''overall crop health status:'' @ str ''   '' @ str ''MODERATE'' @ str '' (0.61)\<newline>'')"
        by (simp add: text_eval)
      then show "\<forall>i<length (str ''Field 7\<newline>''). \<not> field_here latin1 ?H (drop i ?d)"
        unfolding no_field_before_iff d1 by simp
    qed
    then show ?thesis
      by (simp add: text_eval)
  qed
  have fp: ?fp
  proof (rule field_value.missing)
    have "search_field latin1 ?P ?d = None"
      by (simp add: text_eval)
    then show "\<forall>i\<le>length ?d. \<not> field_here latin1 ?P (drop i ?d)"
      by (simp only: field_absent_iff)
  qed
  have "\<lfloor>1000 * spec_health_mult (str ''moderate'') * spec_pest_mult (str ''unknown'')\<rfloor> = 900"
    by (simp add: spec_health_mult_def spec_pest_mult_def str_def)
  with profit_estimate [OF ne(2) q, where h = "str ''moderate''" and p = "str ''unknown''"] fh fp
  have r2: "get_ai_response latin1 ?m ?d = profit_reply 900"
    by simp
  from ne q r1 r2 t fh fp show ?thesis
    by simp
qed

section \<open>The claims about the synthetic report\<close>

lemma report_nth:
  "(report_head @ [a, b] @ report_tail) ! 2 = str ''EXECUTIVE SUMMARY''"
  "(report_head @ [a, b] @ report_tail) ! 3 = str ''================''"
  "(report_head @ [a, b] @ report_tail) ! 9 = str ''CROP HEALTH ANALYSIS''"
  "(report_head @ [a, b] @ report_tail) ! 10 = str ''====================''"
  "(report_head @ [a, b] @ report_tail) ! 26 = str ''SOIL CONDITION ANALYSIS''"
  "(report_head @ [a, b] @ report_tail) ! 27 = str ''=======================''"
  "(report_head @ [a, b] @ report_tail) ! 36 = str ''PEST RISK ANALYSIS''"
  "(report_head @ [a, b] @ report_tail) ! 37 = str ''==================''"
  "(report_head @ [a, b] @ report_tail) ! 48 = str ''RECOMMENDATIONS''"
  "(report_head @ [a, b] @ report_tail) ! 49 = str ''===============''"
  by (simp_all add: report_head_def report_tail_def)

lemma underlines:
  "str ''================'' = replicate 16 61"
  "str ''===================='' = replicate 20 61"
  "str ''======================='' = replicate 23 61"
  "str ''=================='' = replicate 18 61"
  "str ''==============='' = replicate 15 61"
  "length (str ''EXECUTIVE SUMMARY'') = 17"
  "length (str ''CROP HEALTH ANALYSIS'') = 20"
  "length (str ''SOIL CONDITION ANALYSIS'') = 23"
  "length (str ''PEST RISK ANALYSIS'') = 18"
  "length (str ''RECOMMENDATIONS'') = 15"
  by (simp_all add: str_def replicate_numeral)

lemma report_count:
  assumes "list_all (\<lambda>t. a \<noteq> t \<and> b \<noteq> t)
             [str ''EXECUTIVE SUMMARY'', str ''CROP HEALTH ANALYSIS'', str ''SOIL CONDITION ANALYSIS'',
              str ''PEST RISK ANALYSIS'', str ''RECOMMENDATIONS'']"
  shows
  "count_list (report_head @ [a, b] @ report_tail) (str ''EXECUTIVE SUMMARY'') = 1"
  "count_list (report_head @ [a, b] @ report_tail) (str ''CROP HEALTH ANALYSIS'') = 1"
  "count_list (report_head @ [a, b] @ report_tail) (str ''SOIL CONDITION ANALYSIS'') = 1"
  "count_list (report_head @ [a, b] @ report_tail) (str ''PEST RISK ANALYSIS'') = 1"
  "count_list (report_head @ [a, b] @ report_tail) (str ''RECOMMENDATIONS'') = 1"
  using assms
  by (simp_all add: report_head_def report_tail_def str_def)

lemma inserted_lines_no_title:
  "list_all (\<lambda>t. str ''Report ID: DEMO-'' @ show_int e \<noteq> t \<and> str ''Analysis Date: '' @ strftime n \<noteq> t)
     [str ''EXECUTIVE SUMMARY'', str ''CROP HEALTH ANALYSIS'', str ''SOIL CONDITION ANALYSIS'',
      str ''PEST RISK ANALYSIS'', str ''RECOMMENDATIONS'']"
  by (simp add: str_def)

lemma nth_framed: "k < length m \<Longrightarrow> ([] # m @ [[]]) ! Suc k = m ! k"
  by (simp add: nth_append)


text \<open>
  Claim C1. Every report of the generator should carry the two labelled lines that the profit
  rule looks for, \<^verbatim>\<open>Overall Crop Health Status: <word>\<close> and
  \<^verbatim>\<open>Overall Pest Risk Level: <word>\<close>. The generator writes \<^verbatim>\<open>Overall Health: Good\<close> and
  \<^verbatim>\<open>Overall Risk: Medium\<close> instead: whatever the report identifier, the date and the Unicode
  tables, the case-insensitive search for either label finds nothing in the generated
  report, so a profit question about a generated report is answered with the unadjusted
  base value 1000.
\<close>

theorem report_lacks_profit_labels:
  "search_field u (str ''Overall Crop Health Status:'') (report_text e n) = None
   \<and> search_field u (str ''Overall Pest Risk Level:'') (report_text e n) = None
   \<and> (py_in (str ''profit'') (py_lower u question) \<longrightarrow>
        get_ai_response u question (report_text e n) = profit_reply 1000)"
proof -
  have ne: "report_text e n \<noteq> []"
    by (simp add: report_text_def)
  have "health_status u (report_text e n) = str ''unknown''"
    "pest_status u (report_text e n) = str ''unknown''"
    by (simp_all add: health_status_def pest_status_def no_health_label no_pest_label)
  then have "py_int (base_profit (health_status u (report_text e n)) (pest_status u (report_text e n))) = 1000"
    by (simp add: base_profit_def str_def pest_facts)
  with profit_branch [OF ne] no_health_label no_pest_label show ?thesis
    by simp
qed

theorem report_lacks_profit_labels_witness:
  "py_in (str ''profit'') (py_lower latin1 (str ''Expected profit?''))
   \<and> get_ai_response latin1 (str ''Expected profit?'') (report_text (time_time world0) (utcnow world0))
     = str ''Based on the analysis, the estimated potential profit is around $1000 per unit area. This is an estimate based on crop health and pest risk.''"
proof -
  have q: "py_in (str ''profit'') (py_lower latin1 (str ''Expected profit?''))"
    by (simp add: text_eval)
  have t: "profit_reply 1000 = str ''Based on the analysis, the estimated potential profit is around $1000 per unit area. This is an estimate based on crop health and pest risk.''"
    by (simp add: profit_reply_def text_eval)
  from report_lacks_profit_labels [of latin1 "time_time world0" "utcnow world0" "str ''Expected profit?''"] q t
  show ?thesis by simp
qed


text \<open>
  Claim C2. In every generated report each of the five section titles is one line, occurring
  once, in the order EXECUTIVE SUMMARY, CROP HEALTH ANALYSIS, SOIL CONDITION ANALYSIS,
  PEST RISK ANALYSIS, RECOMMENDATIONS (lines 3, 10, 27, 37 and 49 of the text), and the next
  line consists of \<^verbatim>\<open>=\<close> only. For the last four titles the underline is as long as the
  title. For EXECUTIVE SUMMARY it is not: the title has 17 characters and its underline 16.
\<close>

theorem report_section_markers:
  "(let ls = split_nl (report_text e n)
    in ls ! 3 = str ''EXECUTIVE SUMMARY'' \<and> ls ! 4 = replicate 16 61
       \<and> length (str ''EXECUTIVE SUMMARY'') = 17
       \<and> ls ! 10 = str ''CROP HEALTH ANALYSIS''
       \<and> ls ! 11 = replicate (length (str ''CROP HEALTH ANALYSIS'')) 61
       \<and> ls ! 27 = str ''SOIL CONDITION ANALYSIS''
       \<and> ls ! 28 = replicate (length (str ''SOIL CONDITION ANALYSIS'')) 61
       \<and> ls ! 37 = str ''PEST RISK ANALYSIS''
       \<and> ls ! 38 = replicate (length (str ''PEST RISK ANALYSIS'')) 61
       \<and> ls ! 49 = str ''RECOMMENDATIONS''
       \<and> ls ! 50 = replicate (length (str ''RECOMMENDATIONS'')) 61
       \<and> count_list ls (str ''EXECUTIVE SUMMARY'') = 1
       \<and> count_list ls (str ''CROP HEALTH ANALYSIS'') = 1
       \<and> count_list ls (str ''SOIL CONDITION ANALYSIS'') = 1
       \<and> count_list ls (str ''PEST RISK ANALYSIS'') = 1
       \<and> count_list ls (str ''RECOMMENDATIONS'') = 1)"
proof -
  let ?a = "str ''Report ID: DEMO-'' @ show_int e" and ?b = "str ''Analysis Date: '' @ strftime n"
  let ?m = "report_head @ [?a, ?b] @ report_tail"
  have titles: "[] \<noteq> str ''EXECUTIVE SUMMARY''" "[] \<noteq> str ''CROP HEALTH ANALYSIS''"
    "[] \<noteq> str ''SOIL CONDITION ANALYSIS''" "[] \<noteq> str ''PEST RISK ANALYSIS''"
    "[] \<noteq> str ''RECOMMENDATIONS''"
    by (simp_all add: str_def)
  have len: "length ?m = 63"
    by (simp add: report_head_def report_tail_def)
  have nth: "([] # ?m @ [[]]) ! Suc k = ?m ! k" if "k < 63" for k
    using that len nth_framed [of k ?m] by simp
  have cnt: "count_list ([] # ?m @ [[]]) t = count_list ?m t" if "[] \<noteq> t" for t
    using that by simp
  have n3: "([] # ?m @ [[]]) ! 3 = ?m ! 2" "([] # ?m @ [[]]) ! 4 = ?m ! 3"
    "([] # ?m @ [[]]) ! 10 = ?m ! 9" "([] # ?m @ [[]]) ! 11 = ?m ! 10"
    "([] # ?m @ [[]]) ! 27 = ?m ! 26" "([] # ?m @ [[]]) ! 28 = ?m ! 27"
    "([] # ?m @ [[]]) ! 37 = ?m ! 36" "([] # ?m @ [[]]) ! 38 = ?m ! 37"
    "([] # ?m @ [[]]) ! 49 = ?m ! 48" "([] # ?m @ [[]]) ! 50 = ?m ! 49"
    using nth [of 2] nth [of 3] nth [of 9] nth [of 10] nth [of 26] nth [of 27] nth [of 36]
      nth [of 37] nth [of 48] nth [of 49]
    by (simp_all add: eval_nat_numeral)
  show ?thesis
    unfolding Let_def report_lines
    by (simp only: n3 report_nth underlines cnt [OF titles(1)] cnt [OF titles(2)] cnt [OF titles(3)]
        cnt [OF titles(4)] cnt [OF titles(5)] report_count [OF inserted_lines_no_title] simp_thms)
qed

section \<open>The claims about the orchestrator\<close>

text \<open>
  Claim C4, as stated: with the demo-forced flag the reply is a result in demo mode, and with
  the strict flag and a command that is not resolvable the reply is an error and never a
  result in demo mode. In strict mode \<^verbatim>\<open>run_matlab\<close> does not look at \<^verbatim>\<open>shutil.which\<close> at
  all and runs the command: \<^verbatim>\<open>MATLAB_CMD='matlab -nodisplay'\<close> is not resolvable, the shell
  runs it, and an exit status 0 gives a result in mode \<^verbatim>\<open>matlab\<close>, not an error. And an
  exception while the maps are written is caught and answered with an error, also when the
  demo-forced flag is set.
\<close>

theorem strict_unresolvable_counterexample:
  "strict strict_with_arguments \<and> which strict_with_arguments (engine_cmd strict_with_arguments) = None
   \<and> run_matlab latin1 strict_with_arguments
     = Result (str ''Analysis complete'') [str ''/results/ndvi_map.png''] (str ''Analysis complete'')
         (str ''matlab'')
   \<and> demo_forced forced_read_only
   \<and> run_matlab latin1 forced_read_only = Error (str ''[Errno 30] Read-only file system'') None"
  by (simp add: strict_with_arguments_def forced_read_only_def world_eval str_def suffix_to_prefix)

text \<open>
  Claim C4, amended. If the demo-forced flag is set, the file was imported as a module (so
  that \<^verbatim>\<open>generate_demo_results\<close> is bound) and neither writing the maps nor listing the results
  directory raises, the reply is the generated report in demo mode; if one of the two raises,
  the reply is the error envelope of that exception. If the demo-forced flag is not set and the
  strict flag is set, the reply is never a result in demo mode, whether the command is
  resolvable or not: the engine is invoked, and the reply is the error envelope with the
  captured output as details when the exit status is not 0, the error envelope of the
  exception when the invocation raises, and, when the exit status is 0, a result in mode
  \<^verbatim>\<open>matlab\<close> if the results directory can be listed and the error envelope of the exception
  if listing it raises.
\<close>

theorem strict_policy:
  "(demo_forced w \<and> \<not> run_as_main w \<and> write_maps w = None \<and> listdir w = Inr files \<longrightarrow>
      run_matlab u w
      = Result (report_text (time_time w) (utcnow w)) (image_urls files)
          (report_text (time_time w) (utcnow w)) (str ''demo''))
   \<and> (demo_forced w \<and> \<not> run_as_main w \<and> write_maps w = Some e \<longrightarrow> run_matlab u w = Error e None)
   \<and> (demo_forced w \<and> \<not> run_as_main w \<and> write_maps w = None \<and> listdir w = Inl e \<longrightarrow>
        run_matlab u w = Error e None)
   \<and> (\<not> demo_forced w \<and> strict w \<longrightarrow> \<not> is_demo (run_matlab u w))
   \<and> (\<not> demo_forced w \<and> strict w \<and> invoke w = Inr p \<and> returncode p \<noteq> 0 \<longrightarrow>
        run_matlab u w = Error (str ''MATLAB script execution failed.'') (Some (captured p)))
   \<and> (\<not> demo_forced w \<and> strict w \<and> invoke w = Inl e \<longrightarrow> run_matlab u w = Error e None)
   \<and> (\<not> demo_forced w \<and> strict w \<and> invoke w = Inr p \<and> returncode p = 0
        \<and> listdir w = Inr files \<longrightarrow>
        run_matlab u w = Result (stdout p) (image_urls files) (stdout p) (str ''matlab''))
   \<and> (\<not> demo_forced w \<and> strict w \<and> invoke w = Inr p \<and> returncode p = 0
        \<and> listdir w = Inl e \<longrightarrow>
        run_matlab u w = Error e None)"
proof -
  have a: "demo_forced w \<and> \<not> run_as_main w \<and> write_maps w = None \<and> listdir w = Inr files \<longrightarrow>
      run_matlab u w
      = Result (report_text (time_time w) (utcnow w)) (image_urls files)
          (report_text (time_time w) (utcnow w)) (str ''demo'')"
    by (simp add: run_forced demo_reply_ok)
  have a1: "demo_forced w \<and> \<not> run_as_main w \<and> write_maps w = Some e \<longrightarrow>
      run_matlab u w = Error e None"
    by (simp add: run_forced demo_reply_def generate_demo_results_def)
  have a2: "demo_forced w \<and> \<not> run_as_main w \<and> write_maps w = None \<and> listdir w = Inl e \<longrightarrow>
      run_matlab u w = Error e None"
    by (simp add: run_forced demo_reply_def generate_demo_results_def)
  have c: "\<not> demo_forced w \<and> strict w \<and> invoke w = Inr p \<and> returncode p \<noteq> 0 \<longrightarrow>
        run_matlab u w = Error (str ''MATLAB script execution failed.'') (Some (captured p))"
    by (simp add: run_exit_nonzero)
  have d: "\<not> demo_forced w \<and> strict w \<and> invoke w = Inl e \<longrightarrow> run_matlab u w = Error e None"
    by (simp add: run_raised)
  have e: "\<not> demo_forced w \<and> strict w \<and> invoke w = Inr p \<and> returncode p = 0
        \<and> listdir w = Inr files \<longrightarrow>
        run_matlab u w = Result (stdout p) (image_urls files) (stdout p) (str ''matlab'')"
    by (simp add: run_exit_zero)
  have e1: "\<not> demo_forced w \<and> strict w \<and> invoke w = Inr p \<and> returncode p = 0
        \<and> listdir w = Inl e \<longrightarrow>
        run_matlab u w = Error e None"
    by (simp add: run_exit_zero)
  have b: "\<not> demo_forced w \<and> strict w \<longrightarrow> \<not> is_demo (run_matlab u w)"
  proof
    assume h: "\<not> demo_forced w \<and> strict w"
    show "\<not> is_demo (run_matlab u w)"
    proof (cases "invoke w")
      case (Inl x)
      with h show ?thesis by (simp add: run_raised is_demo_def)
    next
      case (Inr q)
      show ?thesis
      proof (cases "returncode q = 0")
        case True
        with h Inr show ?thesis
          by (simp add: run_exit_zero is_demo_def mode_distinct split: sum.splits)
      next
        case False
        with h Inr show ?thesis by (simp add: run_exit_nonzero is_demo_def)
      qed
    qed
  qed
  from a a1 a2 b c d e e1 show ?thesis by blast
qed

theorem strict_policy_witness:
  "demo_forced forced_only \<and> \<not> run_as_main forced_only \<and> write_maps forced_only = None
   \<and> listdir forced_only = Inr [str ''ndvi_map.png'', str ''notes.txt'']
   \<and> run_matlab latin1 forced_only
     = Result (report_text 1700000000 (utcnow world0)) [str ''/results/ndvi_map.png'']
         (report_text 1700000000 (utcnow world0)) (str ''demo'')
   \<and> demo_forced forced_read_only \<and> \<not> run_as_main forced_read_only
   \<and> write_maps forced_read_only = Some (str ''[Errno 30] Read-only file system'')
   \<and> run_matlab latin1 forced_read_only = Error (str ''[Errno 30] Read-only file system'') None
   \<and> \<not> demo_forced strict_only \<and> strict strict_only
   \<and> invoke strict_only
     = Inr \<lparr> returncode = 127, stdout = [], stderr = str ''/bin/sh: 1: matlab: not found\<newline>'' \<rparr>
   \<and> run_matlab latin1 strict_only
     = Error (str ''MATLAB script execution failed.'') (Some (str ''/bin/sh: 1: matlab: not found\<newline>''))
   \<and> \<not> is_demo (run_matlab latin1 strict_only)
   \<and> \<not> demo_forced strict_with_arguments \<and> strict strict_with_arguments
   \<and> run_matlab latin1 strict_with_arguments
     = Result (str ''Analysis complete'') [str ''/results/ndvi_map.png''] (str ''Analysis complete'')
         (str ''matlab'')
   \<and> \<not> demo_forced strict_unlisted \<and> strict strict_unlisted
   \<and> listdir strict_unlisted = Inl (str ''[Errno 13] Permission denied: results'')
   \<and> run_matlab latin1 strict_unlisted = Error (str ''[Errno 13] Permission denied: results'') None"
proof -
  have f: "demo_forced forced_only" "\<not> run_as_main forced_only" "write_maps forced_only = None"
    "listdir forced_only = Inr [str ''ndvi_map.png'', str ''notes.txt'']"
    "time_time forced_only = 1700000000" "utcnow forced_only = utcnow world0"
    "image_urls [str ''ndvi_map.png'', str ''notes.txt''] = [str ''/results/ndvi_map.png'']"
    by (simp_all add: forced_only_def world0_def demo_forced_def getenv_def image_urls_def str_def
        suffix_to_prefix)
  have g: "demo_forced forced_read_only" "\<not> run_as_main forced_read_only"
    "write_maps forced_read_only = Some (str ''[Errno 30] Read-only file system'')"
    by (simp_all add: forced_read_only_def world0_def demo_forced_def getenv_def str_def)
  have s: "\<not> demo_forced strict_only" "strict strict_only"
    "invoke strict_only
     = Inr \<lparr> returncode = 127, stdout = [], stderr = str ''/bin/sh: 1: matlab: not found\<newline>'' \<rparr>"
    by (simp_all add: strict_only_def world0_def demo_forced_def strict_def invoke_def getenv_def str_def)
  have t: "\<not> demo_forced strict_with_arguments" "strict strict_with_arguments"
    "invoke strict_with_arguments
     = Inr \<lparr> returncode = 0, stdout = str ''Analysis complete'', stderr = [] \<rparr>"
    "listdir strict_with_arguments = Inr [str ''ndvi_map.png'', str ''notes.txt'']"
    by (simp_all add: strict_with_arguments_def world0_def demo_forced_def strict_def invoke_def
        getenv_def str_def)
  have v: "\<not> demo_forced strict_unlisted" "strict strict_unlisted"
    "invoke strict_unlisted
     = Inr \<lparr> returncode = 0, stdout = str ''Analysis complete'', stderr = [] \<rparr>"
    "listdir strict_unlisted = Inl (str ''[Errno 13] Permission denied: results'')"
    by (simp_all add: strict_unlisted_def strict_with_arguments_def world0_def demo_forced_def
        strict_def invoke_def getenv_def str_def)
  from strict_policy [of forced_only "[str ''ndvi_map.png'', str ''notes.txt'']" latin1] f
  have r1: "run_matlab latin1 forced_only
     = Result (report_text 1700000000 (utcnow world0)) [str ''/results/ndvi_map.png'']
         (report_text 1700000000 (utcnow world0)) (str ''demo'')"
    by simp
  from strict_policy [of forced_read_only _ latin1 "str ''[Errno 30] Read-only file system''"] g
  have r0: "run_matlab latin1 forced_read_only = Error (str ''[Errno 30] Read-only file system'') None"
    by simp
  from strict_policy [of strict_only _ latin1 _
      "\<lparr> returncode = 127, stdout = [], stderr = str ''/bin/sh: 1: matlab: not found\<newline>'' \<rparr>"] s
  have r2: "run_matlab latin1 strict_only
     = Error (str ''MATLAB script execution failed.'') (Some (str ''/bin/sh: 1: matlab: not found\<newline>''))"
    "\<not> is_demo (run_matlab latin1 strict_only)"
    by (simp_all add: captured_def is_demo_def)
  from strict_policy [of strict_with_arguments "[str ''ndvi_map.png'', str ''notes.txt'']" latin1 _
      "\<lparr> returncode = 0, stdout = str ''Analysis complete'', stderr = [] \<rparr>"] t f(7)
  have r3: "run_matlab latin1 strict_with_arguments
     = Result (str ''Analysis complete'') [str ''/results/ndvi_map.png''] (str ''Analysis complete'')
         (str ''matlab'')"
    by simp
  from strict_policy [of strict_unlisted _ latin1 "str ''[Errno 13] Permission denied: results''"
      "\<lparr> returncode = 0, stdout = str ''Analysis complete'', stderr = [] \<rparr>"] v
  have r4: "run_matlab latin1 strict_unlisted = Error (str ''[Errno 13] Permission denied: results'') None"
    by simp
  from f g s t v r0 r1 r2 r3 r4 show ?thesis by simp
qed

text \<open>
  Claim C5, as stated: after a non-zero exit the orchestrator falls back exactly when strict
  mode is off and the captured output has "not found" together with the configured command
  name, or the exit status is 127. The code does not look for the configured name: it looks
  for the word \<^verbatim>\<open>matlab\<close>. With \<^verbatim>\<open>MATLAB_CMD=octave\<close>, exit status 1 and the output
  \<^verbatim>\<open>octave: toolbox not found\<close> the reply is the error envelope, not the fallback. And a
  fallback that cannot write its maps ends in the error envelope of that exception, not in a
  result in demo mode.
\<close>

theorem fallback_signature_counterexample:
  "\<not> demo_forced no_matlab_word \<and> \<not> strict no_matlab_word
   \<and> invoke no_matlab_word
     = Inr \<lparr> returncode = 1, stdout = [], stderr = str ''octave: toolbox not found\<newline>'' \<rparr>
   \<and> engine_cmd no_matlab_word = str ''octave''
   \<and> py_in (str ''not found'') (str ''octave: toolbox not found\<newline>'')
   \<and> py_in (str ''octave'') (str ''octave: toolbox not found\<newline>'')
   \<and> run_matlab latin1 no_matlab_word
     = Error (str ''MATLAB script execution failed.'') (Some (str ''octave: toolbox not found\<newline>''))
   \<and> \<not> demo_forced broken_link_read_only \<and> \<not> strict broken_link_read_only
   \<and> invoke broken_link_read_only
     = Inr \<lparr> returncode = 127, stdout = [], stderr = str ''/bin/sh: 1: matlab: not found\<newline>'' \<rparr>
   \<and> run_matlab latin1 broken_link_read_only = Error (str ''[Errno 30] Read-only file system'') None"
  by (simp add: no_matlab_word_def broken_link_read_only_def world_eval text_eval)

text \<open>
  Claim C5, amended. When the engine is invoked and exits with a non-zero status, the
  orchestrator takes the demo fallback exactly when strict mode is not set and either the
  lower-cased captured output contains both "not found" and the word "matlab", whatever the
  configured command is, or the exit status is 127. When the file was imported as a module
  (so that \<^verbatim>\<open>generate_demo_results\<close> is bound) and neither writing the maps nor listing the
  results directory raises, the fallback is a result in demo mode whose text is a fixed
  notice, the captured output and the report; if one of the two raises, it is the error
  envelope of that exception, without details. In every other case of a non-zero exit the
  reply is the error envelope with the captured output as details.
\<close>

theorem fallback_on_exit:
  assumes "\<not> demo_forced w" and "\<not> (which w (engine_cmd w) = None \<and> \<not> strict w)"
    and "invoke w = Inr p" and "returncode p \<noteq> 0"
  shows
    "(\<not> strict w
      \<and> ((py_in (str ''not found'') (py_lower u (captured p))
           \<and> py_in (str ''matlab'') (py_lower u (captured p)))
          \<or> returncode p = 127) \<longrightarrow>
        (\<not> run_as_main w \<and> write_maps w = None \<and> listdir w = Inr files \<longrightarrow>
           run_matlab u w
           = Result (command_failed @ captured p @ str ''\<newline>\<newline>''
                     @ report_text (time_time w) (utcnow w))
               (image_urls files)
               (command_failed @ captured p @ str ''\<newline>\<newline>''
                @ report_text (time_time w) (utcnow w))
               (str ''demo''))
        \<and> (\<not> run_as_main w \<and> write_maps w = Some e \<longrightarrow> run_matlab u w = Error e None)
        \<and> (\<not> run_as_main w \<and> write_maps w = None \<and> listdir w = Inl e \<longrightarrow>
             run_matlab u w = Error e None)
        \<and> run_matlab u w \<noteq> Error (str ''MATLAB script execution failed.'') (Some (captured p)))
     \<and> (\<not> (\<not> strict w
            \<and> ((py_in (str ''not found'') (py_lower u (captured p))
                 \<and> py_in (str ''matlab'') (py_lower u (captured p)))
                \<or> returncode p = 127)) \<longrightarrow>
          run_matlab u w = Error (str ''MATLAB script execution failed.'') (Some (captured p)))"
proof -
  let ?fall = "\<not> strict w
      \<and> ((py_in (str ''not found'') (py_lower u (captured p))
           \<and> py_in (str ''matlab'') (py_lower u (captured p)))
          \<or> returncode p = 127)"
  let ?before = "command_failed @ captured p @ str ''\<newline>\<newline>''"
  have r: "run_matlab u w
           = (if ?fall then demo_reply w ?before
              else Error (str ''MATLAB script execution failed.'') (Some (captured p)))"
    using run_exit_nonzero [OF assms] by (simp cong: if_cong)
  have a: "?fall \<longrightarrow> run_matlab u w = demo_reply w ?before"
    using r by simp
  have b: "?fall \<longrightarrow> (\<not> run_as_main w \<and> write_maps w = None \<and> listdir w = Inr files \<longrightarrow>
             run_matlab u w
             = Result (?before @ report_text (time_time w) (utcnow w)) (image_urls files)
                 (?before @ report_text (time_time w) (utcnow w)) (str ''demo''))"
    using a by (simp add: demo_reply_ok)
  have b1: "?fall \<longrightarrow> (\<not> run_as_main w \<and> write_maps w = Some e \<longrightarrow> run_matlab u w = Error e None)"
    using a by (simp add: demo_reply_def generate_demo_results_def)
  have b2: "?fall \<longrightarrow> (\<not> run_as_main w \<and> write_maps w = None \<and> listdir w = Inl e \<longrightarrow>
             run_matlab u w = Error e None)"
    using a by (simp add: demo_reply_def generate_demo_results_def)
  have c: "\<not> ?fall \<longrightarrow>
           run_matlab u w = Error (str ''MATLAB script execution failed.'') (Some (captured p))"
    using r by simp
  have "demo_reply w ?before \<noteq> Error (str ''MATLAB script execution failed.'') (Some (captured p))"
    by (simp add: demo_reply_def split: sum.splits)
  with a have d: "?fall \<longrightarrow>
      run_matlab u w \<noteq> Error (str ''MATLAB script execution failed.'') (Some (captured p))"
    by simp
  from b b1 b2 c d show ?thesis
    by simp
qed

theorem fallback_on_exit_witness:
  "\<not> demo_forced broken_link
   \<and> \<not> (which broken_link (engine_cmd broken_link) = None \<and> \<not> strict broken_link)
   \<and> invoke broken_link
     = Inr \<lparr> returncode = 127, stdout = [], stderr = str ''/bin/sh: 1: matlab: not found\<newline>'' \<rparr>
   \<and> \<not> run_as_main broken_link
   \<and> run_matlab latin1 broken_link
     = Result (command_failed @ str ''/bin/sh: 1: matlab: not found\<newline>'' @ str ''\<newline>\<newline>''
               @ report_text 1700000000 (utcnow world0))
         [str ''/results/ndvi_map.png'']
         (command_failed @ str ''/bin/sh: 1: matlab: not found\<newline>'' @ str ''\<newline>\<newline>''
          @ report_text 1700000000 (utcnow world0))
         (str ''demo'')
   \<and> \<not> demo_forced strict_only
   \<and> \<not> (which strict_only (engine_cmd strict_only) = None \<and> \<not> strict strict_only)
   \<and> run_matlab latin1 strict_only
     = Error (str ''MATLAB script execution failed.'') (Some (str ''/bin/sh: 1: matlab: not found\<newline>''))"
proof -
  let ?p = "\<lparr> returncode = 127, stdout = [], stderr = str ''/bin/sh: 1: matlab: not found\<newline>'' \<rparr>"
  have b: "\<not> demo_forced broken_link"
    "\<not> (which broken_link (engine_cmd broken_link) = None \<and> \<not> strict broken_link)"
    "invoke broken_link = Inr ?p" "returncode ?p \<noteq> 0"
    by (simp_all add: broken_link_def world0_def demo_forced_def strict_def invoke_def getenv_def
        engine_cmd_def str_def)
  have b': "\<not> strict broken_link" "\<not> run_as_main broken_link" "write_maps broken_link = None"
    "listdir broken_link = Inr [str ''ndvi_map.png'', str ''notes.txt'']"
    "time_time broken_link = 1700000000" "utcnow broken_link = utcnow world0"
    "image_urls [str ''ndvi_map.png'', str ''notes.txt''] = [str ''/results/ndvi_map.png'']"
    "captured ?p = str ''/bin/sh: 1: matlab: not found\<newline>''"
    by (simp_all add: broken_link_def world0_def strict_def getenv_def image_urls_def captured_def
        str_def suffix_to_prefix)
  have s: "\<not> demo_forced strict_only"
    "\<not> (which strict_only (engine_cmd strict_only) = None \<and> \<not> strict strict_only)"
    "invoke strict_only = Inr ?p" "strict strict_only"
    by (simp_all add: strict_only_def world0_def demo_forced_def strict_def invoke_def getenv_def
        engine_cmd_def str_def)
  from fallback_on_exit [OF b, of latin1 "[str ''ndvi_map.png'', str ''notes.txt'']"] b'
  have r1: "run_matlab latin1 broken_link
     = Result (command_failed @ str ''/bin/sh: 1: matlab: not found\<newline>'' @ str ''\<newline>\<newline>''
               @ report_text 1700000000 (utcnow world0))
         [str ''/results/ndvi_map.png'']
         (command_failed @ str ''/bin/sh: 1: matlab: not found\<newline>'' @ str ''\<newline>\<newline>''
          @ report_text 1700000000 (utcnow world0))
         (str ''demo'')"
    by simp
  from fallback_on_exit [OF s(1,2,3) b(4), of latin1] s(4) b'(8)
  have r2: "run_matlab latin1 strict_only
     = Error (str ''MATLAB script execution failed.'') (Some (str ''/bin/sh: 1: matlab: not found\<newline>''))"
    by simp
  from b b' s r1 r2 show ?thesis by simp
qed

text \<open>
  Claim C10. The claim is about the three places of \<^verbatim>\<open>run_matlab\<close> that answer with the
  synthetic report: the demo-forced flag; a command that is not resolvable, without strict
  mode; a non-zero exit with the not-found signature or status 127, without strict mode.

  Started as a program, the file answers none of the three with a report: the name
  \<^verbatim>\<open>generate_demo_results\<close> is not bound yet, the call raises, and the reply is the error
  envelope \<^verbatim>\<open>name 'generate_demo_results' is not defined\<close>, which is no result in demo mode.

  Imported as a module, and when writing the maps and listing the results raise nothing, the
  file does what the claim says: with the demo-forced flag the returned text is the generated
  report and nothing else, and no generated report contains "running in DEMO mode"; on the
  two fallback paths the returned text is a notice that contains "running in DEMO mode",
  followed by the report; the mode is \<^verbatim>\<open>demo\<close> on all three paths. A run of the engine that
  exits with status 0 returns its standard output unchanged, in mode \<^verbatim>\<open>matlab\<close>.
\<close>

theorem demo_note_placement:
  "(run_as_main w
    \<and> (demo_forced w
        \<or> (\<not> demo_forced w \<and> which w (engine_cmd w) = None \<and> \<not> strict w)
        \<or> (\<not> demo_forced w \<and> which w (engine_cmd w) \<noteq> None \<and> \<not> strict w
            \<and> invoke w = Inr p \<and> returncode p \<noteq> 0
            \<and> ((py_in (str ''not found'') (py_lower u (captured p))
                 \<and> py_in (str ''matlab'') (py_lower u (captured p)))
                \<or> returncode p = 127))) \<longrightarrow>
      run_matlab u w = Error name_error None \<and> \<not> is_demo (run_matlab u w))
   \<and> (\<not> run_as_main w \<and> write_maps w = None \<and> listdir w = Inr files \<longrightarrow>
        (demo_forced w \<longrightarrow>
           run_matlab u w
           = Result (report_text (time_time w) (utcnow w)) (image_urls files)
               (report_text (time_time w) (utcnow w)) (str ''demo''))
        \<and> (\<not> demo_forced w \<and> which w (engine_cmd w) = None \<and> \<not> strict w \<longrightarrow>
             run_matlab u w
             = Result (not_on_path @ report_text (time_time w) (utcnow w)) (image_urls files)
                 (not_on_path @ report_text (time_time w) (utcnow w)) (str ''demo''))
        \<and> (\<not> demo_forced w \<and> which w (engine_cmd w) \<noteq> None \<and> \<not> strict w
             \<and> invoke w = Inr p \<and> returncode p \<noteq> 0
             \<and> ((py_in (str ''not found'') (py_lower u (captured p))
                  \<and> py_in (str ''matlab'') (py_lower u (captured p)))
                 \<or> returncode p = 127) \<longrightarrow>
             run_matlab u w
             = Result (command_failed @ captured p @ str ''\<newline>\<newline>''
                       @ report_text (time_time w) (utcnow w))
                 (image_urls files)
                 (command_failed @ captured p @ str ''\<newline>\<newline>''
                  @ report_text (time_time w) (utcnow w))
                 (str ''demo''))
        \<and> (\<not> demo_forced w \<and> \<not> (which w (engine_cmd w) = None \<and> \<not> strict w)
             \<and> invoke w = Inr p \<and> returncode p = 0 \<longrightarrow>
             run_matlab u w = Result (stdout p) (image_urls files) (stdout p) (str ''matlab'')))
   \<and> \<not> py_in (str ''running in DEMO mode'') (report_text (time_time w) (utcnow w))
   \<and> py_in (str ''running in DEMO mode'') not_on_path
   \<and> py_in (str ''running in DEMO mode'') command_failed"
proof -
  let ?R = "report_text (time_time w) (utcnow w)"
  let ?sig = "(py_in (str ''not found'') (py_lower u (captured p))
               \<and> py_in (str ''matlab'') (py_lower u (captured p)))
              \<or> returncode p = 127"
  have fall: "run_matlab u w = demo_reply w (command_failed @ captured p @ str ''\<newline>\<newline>'')"
    if "\<not> demo_forced w \<and> which w (engine_cmd w) \<noteq> None \<and> \<not> strict w
        \<and> invoke w = Inr p \<and> returncode p \<noteq> 0 \<and> ?sig"
    using that run_exit_nonzero [of w p u] by (simp cong: if_cong)
  have m: "run_matlab u w = Error name_error None \<and> \<not> is_demo (run_matlab u w)"
    if h: "run_as_main w
           \<and> (demo_forced w
               \<or> (\<not> demo_forced w \<and> which w (engine_cmd w) = None \<and> \<not> strict w)
               \<or> (\<not> demo_forced w \<and> which w (engine_cmd w) \<noteq> None \<and> \<not> strict w
                   \<and> invoke w = Inr p \<and> returncode p \<noteq> 0 \<and> ?sig))"
  proof -
    from h have "run_matlab u w = demo_reply w []
                 \<or> run_matlab u w = demo_reply w not_on_path
                 \<or> run_matlab u w = demo_reply w (command_failed @ captured p @ str ''\<newline>\<newline>'')"
      using run_forced [of w u] run_unavailable [of w u] fall by blast
    with h have "run_matlab u w = Error name_error None"
      by (auto simp: demo_reply_unbound)
    then show ?thesis
      by (simp add: is_demo_def)
  qed
  have n: "(demo_forced w \<longrightarrow> run_matlab u w = Result ?R (image_urls files) ?R (str ''demo''))
        \<and> (\<not> demo_forced w \<and> which w (engine_cmd w) = None \<and> \<not> strict w \<longrightarrow>
             run_matlab u w
             = Result (not_on_path @ ?R) (image_urls files) (not_on_path @ ?R) (str ''demo''))
        \<and> (\<not> demo_forced w \<and> which w (engine_cmd w) \<noteq> None \<and> \<not> strict w
             \<and> invoke w = Inr p \<and> returncode p \<noteq> 0 \<and> ?sig \<longrightarrow>
             run_matlab u w
             = Result (command_failed @ captured p @ str ''\<newline>\<newline>'' @ ?R) (image_urls files)
                 (command_failed @ captured p @ str ''\<newline>\<newline>'' @ ?R) (str ''demo''))
        \<and> (\<not> demo_forced w \<and> \<not> (which w (engine_cmd w) = None \<and> \<not> strict w)
             \<and> invoke w = Inr p \<and> returncode p = 0 \<longrightarrow>
             run_matlab u w = Result (stdout p) (image_urls files) (stdout p) (str ''matlab''))"
    if ok: "\<not> run_as_main w \<and> write_maps w = None \<and> listdir w = Inr files"
  proof -
    have a: "demo_forced w \<longrightarrow> run_matlab u w = Result ?R (image_urls files) ?R (str ''demo'')"
      using ok by (simp add: run_forced demo_reply_ok)
    have c: "\<not> demo_forced w \<and> which w (engine_cmd w) = None \<and> \<not> strict w \<longrightarrow>
          run_matlab u w
          = Result (not_on_path @ ?R) (image_urls files) (not_on_path @ ?R) (str ''demo'')"
      using ok by (simp add: run_unavailable demo_reply_ok)
    have d: "\<not> demo_forced w \<and> which w (engine_cmd w) \<noteq> None \<and> \<not> strict w
          \<and> invoke w = Inr p \<and> returncode p \<noteq> 0 \<and> ?sig \<longrightarrow>
          run_matlab u w
          = Result (command_failed @ captured p @ str ''\<newline>\<newline>'' @ ?R) (image_urls files)
              (command_failed @ captured p @ str ''\<newline>\<newline>'' @ ?R) (str ''demo'')"
      using ok fall by (auto simp: demo_reply_ok)
    have e: "\<not> demo_forced w \<and> \<not> (which w (engine_cmd w) = None \<and> \<not> strict w)
          \<and> invoke w = Inr p \<and> returncode p = 0 \<longrightarrow>
          run_matlab u w = Result (stdout p) (image_urls files) (stdout p) (str ''matlab'')"
      using ok run_exit_zero [of w p u] by simp
    from a c d e show ?thesis
      by blast
  qed
  have b: "\<not> py_in (str ''running in DEMO mode'') ?R"
    by (rule no_demo_note)
  have f: "py_in (str ''running in DEMO mode'') not_on_path"
    "py_in (str ''running in DEMO mode'') command_failed"
    by (simp_all add: not_on_path_def command_failed_def str_def)
  from m n b f show ?thesis
    by blast
qed

theorem demo_note_placement_witness:
  "run_as_main main_forced \<and> demo_forced main_forced
   \<and> run_matlab latin1 main_forced = Error (str ''name 'generate_demo_results' is not defined'') None
   \<and> run_as_main main_unavailable \<and> \<not> demo_forced main_unavailable
   \<and> which main_unavailable (engine_cmd main_unavailable) = None \<and> \<not> strict main_unavailable
   \<and> run_matlab latin1 main_unavailable
     = Error (str ''name 'generate_demo_results' is not defined'') None
   \<and> run_as_main main_broken_link \<and> \<not> demo_forced main_broken_link
   \<and> which main_broken_link (engine_cmd main_broken_link) \<noteq> None \<and> \<not> strict main_broken_link
   \<and> invoke main_broken_link
     = Inr \<lparr> returncode = 127, stdout = [], stderr = str ''/bin/sh: 1: matlab: not found\<newline>'' \<rparr>
   \<and> run_matlab latin1 main_broken_link
     = Error (str ''name 'generate_demo_results' is not defined'') None
   \<and> \<not> run_as_main forced_only \<and> write_maps forced_only = None
   \<and> listdir forced_only = Inr [str ''ndvi_map.png'', str ''notes.txt'']
   \<and> demo_forced forced_only
   \<and> run_matlab latin1 forced_only
     = Result (report_text 1700000000 (utcnow world0)) [str ''/results/ndvi_map.png'']
         (report_text 1700000000 (utcnow world0)) (str ''demo'')
   \<and> \<not> run_as_main world0 \<and> write_maps world0 = None
   \<and> listdir world0 = Inr [str ''ndvi_map.png'', str ''notes.txt'']
   \<and> \<not> demo_forced world0 \<and> which world0 (engine_cmd world0) = None \<and> \<not> strict world0
   \<and> run_matlab latin1 world0
     = Result (not_on_path @ report_text 1700000000 (utcnow world0)) [str ''/results/ndvi_map.png'']
         (not_on_path @ report_text 1700000000 (utcnow world0)) (str ''demo'')"
proof -
  let ?p = "\<lparr> returncode = 127, stdout = [], stderr = str ''/bin/sh: 1: matlab: not found\<newline>'' \<rparr>"
  have mf: "run_as_main main_forced" "demo_forced main_forced"
    by (simp_all add: main_forced_def forced_only_def world0_def demo_forced_def getenv_def str_def)
  have mu: "run_as_main main_unavailable" "\<not> demo_forced main_unavailable"
    "which main_unavailable (engine_cmd main_unavailable) = None" "\<not> strict main_unavailable"
    by (simp_all add: main_unavailable_def world0_def demo_forced_def strict_def getenv_def str_def)
  have mb: "run_as_main main_broken_link" "\<not> demo_forced main_broken_link"
    "which main_broken_link (engine_cmd main_broken_link) \<noteq> None" "\<not> strict main_broken_link"
    "invoke main_broken_link = Inr ?p" "returncode ?p \<noteq> 0" "returncode ?p = 127"
    by (simp_all add: main_broken_link_def broken_link_def world0_def demo_forced_def strict_def
        invoke_def getenv_def engine_cmd_def str_def)
  have f: "\<not> run_as_main forced_only" "write_maps forced_only = None"
    "listdir forced_only = Inr [str ''ndvi_map.png'', str ''notes.txt'']"
    by (simp_all add: forced_only_def world0_def)
  have f': "demo_forced forced_only"
    "time_time forced_only = 1700000000" "utcnow forced_only = utcnow world0"
    "image_urls [str ''ndvi_map.png'', str ''notes.txt''] = [str ''/results/ndvi_map.png'']"
    by (simp_all add: forced_only_def world0_def demo_forced_def getenv_def image_urls_def str_def
        suffix_to_prefix)
  have z: "\<not> run_as_main world0" "write_maps world0 = None"
    "listdir world0 = Inr [str ''ndvi_map.png'', str ''notes.txt'']"
    by (simp_all add: world0_def)
  have z': "\<not> demo_forced world0" "which world0 (engine_cmd world0) = None" "\<not> strict world0"
    "time_time world0 = 1700000000"
    by (simp_all add: world0_def demo_forced_def strict_def getenv_def str_def)
  from demo_note_placement [of main_forced _ latin1] mf
  have e1: "run_matlab latin1 main_forced = Error (str ''name 'generate_demo_results' is not defined'') None"
    by (simp add: name_error_def)
  from demo_note_placement [of main_unavailable _ latin1] mu
  have e2: "run_matlab latin1 main_unavailable
            = Error (str ''name 'generate_demo_results' is not defined'') None"
    by (simp add: name_error_def)
  from demo_note_placement [of main_broken_link ?p latin1] mb
  have e3: "run_matlab latin1 main_broken_link
            = Error (str ''name 'generate_demo_results' is not defined'') None"
    by (simp add: name_error_def)
  from demo_note_placement [of forced_only _ latin1 "[str ''ndvi_map.png'', str ''notes.txt'']"] f f'
  have r1: "run_matlab latin1 forced_only
     = Result (report_text 1700000000 (utcnow world0)) [str ''/results/ndvi_map.png'']
         (report_text 1700000000 (utcnow world0)) (str ''demo'')"
    by simp
  from demo_note_placement [of world0 _ latin1 "[str ''ndvi_map.png'', str ''notes.txt'']"] z z' f'(4)
  have r2: "run_matlab latin1 world0
     = Result (not_on_path @ report_text 1700000000 (utcnow world0)) [str ''/results/ndvi_map.png'']
         (not_on_path @ report_text 1700000000 (utcnow world0)) (str ''demo'')"
    by simp
  from mf mu mb f f' z z' e1 e2 e3 r1 r2 show ?thesis by simp
qed

section \<open>The claim about the pest section\<close>

lemma pest_branch:
  assumes "context \<noteq> []" and "m = py_lower u question"
    and "\<not> py_in (str ''profit'') m" and "\<not> py_in (str ''crop health'') m"
    and "\<not> py_in (str ''soil'') m" and "\<not> py_in (str ''moisture'') m"
    and "py_in (str ''pest'') m"
  shows "get_ai_response u question context
         = section_reply
             (search_section (str ''PEST RISK ANALYSIS'') 18 (str ''RECOMMENDATIONS'') context)
             (str ''I couldn't find the Pest Risk section in the analysis.'')"
  using assms by (simp add: get_ai_response_def Let_def)

lemma equals_not_space: "\<not> is_space 61"
  by (simp add: is_space_def)

lemma match_marker_here:
  assumes "\<forall>c\<in>set ws. is_space c" and "0 < n"
  shows "match_marker title n (title @ ws @ replicate n 61 @ rest) = Some rest"
proof -
  from assms(2) obtain k where n: "n = Suc k" by (cases n) auto
  have "dropWhile is_space (ws @ replicate n 61 @ rest) = replicate n 61 @ rest"
    using assms(1) equals_not_space by (simp add: dropWhile_append3 n)
  then show ?thesis
    by (simp add: match_marker_def)
qed

lemma find_before_first:
  assumes "stop \<noteq> []"
  shows "\<not> py_in stop (body @ butlast stop) \<Longrightarrow> find_before stop (body @ stop @ post) = Some body"
proof (induction body)
  case Nil
  from assms obtain c cs where "stop = c # cs" by (cases stop) auto
  then show ?case by simp
next
  case (Cons c body)
  from Cons.prems have a: "\<not> prefix stop (c # body @ butlast stop)"
    and b: "\<not> py_in stop (body @ butlast stop)"
    by simp_all
  have "\<not> prefix stop (c # body @ stop @ post)"
  proof
    assume p: "prefix stop (c # body @ stop @ post)"
    have "c # body @ stop @ post = (c # body @ butlast stop) @ (last stop # post)"
      using assms by simp
    with p have "prefix stop ((c # body @ butlast stop) @ (last stop # post))"
      by simp
    moreover have "length stop \<le> length (c # body @ butlast stop)"
      by simp
    ultimately have "prefix stop (c # body @ butlast stop)"
      by (metis prefix_length_prefix prefix_append append_prefixD prefix_order.order_refl prefixI)
    with a show False by simp
  qed
  with Cons.IH [OF b] show ?case
    by simp
qed

lemma search_section_skip:
  "\<forall>i<length pre. match_marker title n (drop i (pre @ s)) = None \<Longrightarrow> s \<noteq> [] \<Longrightarrow>
   search_section title n stop (pre @ s) = search_section title n stop s"
proof (induction pre)
  case Nil
  then show ?case by simp
next
  case (Cons c pre)
  from Cons.prems(1) have "match_marker title n (drop 0 ((c # pre) @ s)) = None"
    by (metis length_greater_0_conv list.distinct(1))
  then have h: "match_section title n stop (c # pre @ s) = None"
    by (simp add: match_section_def)
  have "\<forall>i<length pre. match_marker title n (drop i (pre @ s)) = None"
  proof (intro allI impI)
    fix i assume "i < length pre"
    then have "Suc i < length (c # pre)" by simp
    with Cons.prems(1) have "match_marker title n (drop (Suc i) ((c # pre) @ s)) = None"
      by blast
    then show "match_marker title n (drop i (pre @ s)) = None" by simp
  qed
  from Cons.IH [OF this Cons.prems(2)] h show ?case
    by simp
qed

lemma search_section_here:
  "match_section title n stop s = Some g \<Longrightarrow> search_section title n stop s = Some g"
  by (cases s) simp_all

lemma search_section_absent:
  "\<forall>i\<le>length s. match_marker title n (drop i s) = None \<Longrightarrow> search_section title n stop s = None"
proof (induction s)
  case Nil
  then show ?case by (simp add: match_section_def)
next
  case (Cons c s)
  from Cons.prems have "match_marker title n (drop 0 (c # s)) = None"
    by blast
  then have h: "match_section title n stop (c # s) = None"
    by (simp add: match_section_def)
  have "\<forall>i\<le>length s. match_marker title n (drop i s) = None"
  proof (intro allI impI)
    fix i assume "i \<le> length s"
    then have "Suc i \<le> length (c # s)" by simp
    with Cons.prems have "match_marker title n (drop (Suc i) (c # s)) = None" by blast
    then show "match_marker title n (drop i s) = None" by simp
  qed
  from Cons.IH [OF this] h show ?case by simp
qed


text \<open>
  Claim C8, as stated: for a pest question and a report with a well-formed PEST RISK ANALYSIS
  marker followed later by a RECOMMENDATIONS marker, the answer is the trimmed text between
  the two markers. The pattern ends the section at the first occurrence of the word
  RECOMMENDATIONS, with or without an underline: when the section itself mentions the word,
  the answer stops there.
\<close>

theorem pest_section_counterexample:
  "get_ai_response latin1 (str ''What about pests?'')
     (str ''PEST RISK ANALYSIS\<newline>==================''
      @ str ''\<newline>Aphids: see RECOMMENDATIONS below\<newline>\<newline>''
      @ str ''RECOMMENDATIONS\<newline>===============''
      @ str ''\<newline>Scout weekly.'')
   = str ''Aphids: see''
   \<and> py_strip (str ''\<newline>Aphids: see RECOMMENDATIONS below\<newline>\<newline>'')
     = str ''Aphids: see RECOMMENDATIONS below''
   \<and> str ''Aphids: see'' \<noteq> str ''Aphids: see RECOMMENDATIONS below''"
  by (simp add: get_ai_response_def text_eval)

text \<open>
  Claim C8, amended. For a question that contains "pest" and none of "profit",
  "crop health", "soil", "moisture": if the report has the title PEST RISK ANALYSIS, any
  white space and an underline of 18 \<^verbatim>\<open>=\<close>, with no such marker at an earlier position, then the
  answer is the trimmed text between the end of that underline and the first occurrence of
  the word RECOMMENDATIONS after it. If the report has no such marker at any position, the
  answer is the fixed message that names the Pest Risk section as not found.
\<close>

theorem pest_section_reply:
  assumes "\<not> py_in (str ''profit'') (py_lower u question)"
    and "\<not> py_in (str ''crop health'') (py_lower u question)"
    and "\<not> py_in (str ''soil'') (py_lower u question)"
    and "\<not> py_in (str ''moisture'') (py_lower u question)"
    and "py_in (str ''pest'') (py_lower u question)"
    and "context \<noteq> []"
  shows
    "(context = pre @ str ''PEST RISK ANALYSIS'' @ ws @ replicate 18 61 @ body
                @ str ''RECOMMENDATIONS'' @ post
      \<and> (\<forall>c\<in>set ws. is_space c)
      \<and> (\<forall>i<length pre. match_marker (str ''PEST RISK ANALYSIS'') 18 (drop i context) = None)
      \<and> \<not> py_in (str ''RECOMMENDATIONS'') (body @ butlast (str ''RECOMMENDATIONS'')) \<longrightarrow>
        get_ai_response u question context = py_strip body)
     \<and> ((\<forall>i\<le>length context. match_marker (str ''PEST RISK ANALYSIS'') 18 (drop i context) = None) \<longrightarrow>
          get_ai_response u question context
          = str ''I couldn't find the Pest Risk section in the analysis.'')"
proof -
  let ?T = "str ''PEST RISK ANALYSIS''" and ?S = "str ''RECOMMENDATIONS''"
  have r: "get_ai_response u question context
           = section_reply (search_section ?T 18 ?S context)
               (str ''I couldn't find the Pest Risk section in the analysis.'')"
    using assms by (intro pest_branch) simp_all
  have found: "get_ai_response u question context = py_strip body"
    if c: "context = pre @ ?T @ ws @ replicate 18 61 @ body @ ?S @ post"
      and ws: "\<forall>c\<in>set ws. is_space c"
      and first: "\<forall>i<length pre. match_marker ?T 18 (drop i context) = None"
      and stop: "\<not> py_in ?S (body @ butlast ?S)"
  proof -
    let ?s = "?T @ ws @ replicate 18 61 @ body @ ?S @ post"
    have ne: "?S \<noteq> []" "?s \<noteq> []"
      by (simp_all add: str_def)
    have "match_marker ?T 18 ?s = Some (body @ ?S @ post)"
      using ws by (intro match_marker_here) simp_all
    moreover have "find_before ?S (body @ ?S @ post) = Some body"
      using ne(1) stop by (rule find_before_first)
    ultimately have "match_section ?T 18 ?S ?s = Some body"
      by (simp add: match_section_def)
    then have "search_section ?T 18 ?S ?s = Some body"
      by (rule search_section_here)
    moreover have "search_section ?T 18 ?S (pre @ ?s) = search_section ?T 18 ?S ?s"
      using first ne(2) unfolding c by (rule search_section_skip)
    ultimately have "search_section ?T 18 ?S context = Some body"
      by (simp add: c)
    with r show ?thesis
      by (simp add: section_reply_def)
  qed
  have absent: "get_ai_response u question context
                = str ''I couldn't find the Pest Risk section in the analysis.''"
    if "\<forall>i\<le>length context. match_marker ?T 18 (drop i context) = None"
    using r search_section_absent [OF that] by (simp add: section_reply_def)
  from found absent show ?thesis
    by blast
qed

theorem pest_section_reply_witness:
  "get_ai_response latin1 (str ''What about pests?'')
     (str ''pH: 6.7\<newline>\<newline>'' @ str ''PEST RISK ANALYSIS'' @ str ''\<newline>'' @ replicate 18 61
      @ str ''\<newline>Overall Risk: Medium\<newline>  Aphids: 0.42\<newline>\<newline>''
      @ str ''RECOMMENDATIONS'' @ str ''\<newline>===============\<newline>Scout weekly.'')
   = str ''Overall Risk: Medium\<newline>  Aphids: 0.42''
   \<and> get_ai_response latin1 (str ''What about pests?'') (str ''pH: 6.7\<newline>\<newline>RECOMMENDATIONS'')
     = str ''I couldn't find the Pest Risk section in the analysis.''"
proof -
  let ?q = "str ''What about pests?''"
  let ?pre = "str ''pH: 6.7\<newline>\<newline>''" and ?ws = "str ''\<newline>''"
  let ?body = "str ''\<newline>Overall Risk: Medium\<newline>  Aphids: 0.42\<newline>\<newline>''"
  let ?post = "str ''\<newline>===============\<newline>Scout weekly.''"
  let ?c = "?pre @ str ''PEST RISK ANALYSIS'' @ ?ws @ replicate 18 61 @ ?body
            @ str ''RECOMMENDATIONS'' @ ?post"
  let ?d = "str ''pH: 6.7\<newline>\<newline>RECOMMENDATIONS''"
  have q: "\<not> py_in (str ''profit'') (py_lower latin1 ?q)"
    "\<not> py_in (str ''crop health'') (py_lower latin1 ?q)"
    "\<not> py_in (str ''soil'') (py_lower latin1 ?q)"
    "\<not> py_in (str ''moisture'') (py_lower latin1 ?q)"
    "py_in (str ''pest'') (py_lower latin1 ?q)"
    by (simp_all add: text_eval)
  have ne: "?c \<noteq> []" "?d \<noteq> []"
    by (simp_all add: str_def)
  have ws: "\<forall>c\<in>set ?ws. is_space c"
    by (simp add: str_def is_space_def)
  have first: "\<forall>i<length ?pre. match_marker (str ''PEST RISK ANALYSIS'') 18 (drop i ?c) = None"
    by (simp add: text_eval eval_nat_numeral All_less_Suc)
  have stop: "\<not> py_in (str ''RECOMMENDATIONS'') (?body @ butlast (str ''RECOMMENDATIONS''))"
    by (simp add: str_def)
  have strip: "py_strip ?body = str ''Overall Risk: Medium\<newline>  Aphids: 0.42''"
    by (simp add: text_eval)
  have none: "\<forall>i\<le>length ?d. match_marker (str ''PEST RISK ANALYSIS'') 18 (drop i ?d) = None"
    by (simp add: text_eval eval_nat_numeral All_le_Suc)
  from pest_section_reply [OF q ne(1), of ?pre ?ws ?body ?post] ws first stop strip
  have r1: "get_ai_response latin1 ?q ?c = str ''Overall Risk: Medium\<newline>  Aphids: 0.42''"
    by simp
  from pest_section_reply [OF q ne(2)] none
  have r2: "get_ai_response latin1 ?q ?d = str ''I couldn't find the Pest Risk section in the analysis.''"
    by simp
  from r1 r2 show ?thesis by simp
qed

section \<open>The claim about the palette\<close>

text \<open>
  A double is a fixed point of the rounding. A number \<open>m * 2 powi e\<close> with a significand below
  \<open>2 ^ 53\<close> and an exponent of at least \<open>-1074\<close> is one, and a double between two powers of two
  is a multiple of the quantum of that interval. On the unit interval every product and
  difference of \<^verbatim>\<open>jet_rgb\<close> is therefore computed without rounding error.
\<close>

lemma round_even_int: "round_even (of_int m) = m"
  by (rule round_even_near) simp

lemma fl_grid:
  assumes x: "x = of_int m * 2 powi e" and m: "\<bar>m\<bar> < 2 ^ 53" and e: "- 1074 \<le> e"
  shows "fl x = x"
proof (cases "m = 0")
  case True
  with x show ?thesis by (simp add: fl_def)
next
  case False
  then have x0: "x \<noteq> 0" using x by simp
  have ax: "\<bar>x\<bar> = of_int \<bar>m\<bar> * 2 powi e"
    using x by (simp add: abs_mult)
  have pos: "0 < \<bar>x\<bar>" using x0 by simp
  have "of_int \<bar>m\<bar> < (2::rat) ^ 53"
    using m by (metis of_int_less_iff of_int_numeral of_int_power)
  then have "\<bar>x\<bar> < 2 ^ 53 * 2 powi e"
    unfolding ax by (simp add: mult_strict_right_mono)
  also have "(2::rat) ^ 53 * 2 powi e = 2 powi (e + 53)"
    by (simp add: power_int_add)
  finally have "\<bar>x\<bar> < 2 powi (e + 53)" .
  with ilog2_bounds [OF pos] have "(2::rat) powi ilog2 \<bar>x\<bar> < 2 powi (e + 53)"
    by simp
  then have "ilog2 \<bar>x\<bar> < e + 53" by (rule powi_less_imp)
  with e have q: "quantum x \<le> e"
    by (simp add: quantum_def)
  define d where "d = nat (e - quantum x)"
  have "(2::rat) powi e = 2 powi (quantum x + int d)"
    using q by (simp add: d_def)
  also have "\<dots> = 2 powi quantum x * 2 ^ d"
    by (simp add: power_int_add)
  finally have pe: "(2::rat) powi e = 2 powi quantum x * 2 ^ d" .
  have "\<bar>x\<bar> / 2 powi quantum x = of_int (\<bar>m\<bar> * 2 ^ d)"
    unfolding ax pe by simp
  then have "round_even (\<bar>x\<bar> / 2 powi quantum x) = \<bar>m\<bar> * 2 ^ d"
    by (simp only: round_even_int)
  then have "fl x = sgn x * of_int (\<bar>m\<bar> * 2 ^ d) * 2 powi quantum x"
    using x0 by (simp add: fl_def)
  also have "\<dots> = sgn x * \<bar>x\<bar>"
    unfolding ax pe by simp
  also have "\<dots> = x"
    by (simp add: sgn_mult_abs)
  finally show ?thesis .
qed

lemma double_grid:
  assumes "fl v = v" and "0 < v"
  shows "\<exists>m. v = of_int m * 2 powi quantum v \<and> 0 < m \<and> m < 2 ^ 53"
proof -
  define m where "m = round_even (\<bar>v\<bar> / 2 powi quantum v)"
  have v: "v = of_int m * 2 powi quantum v"
    using assms by (simp add: fl_def m_def split: if_splits)
  have mpos: "0 < m"
  proof (rule ccontr)
    assume "\<not> 0 < m"
    then have "(of_int m :: rat) \<le> 0" by simp
    then have "of_int m * (2::rat) powi quantum v \<le> 0"
      by (simp add: mult_le_0_iff)
    with v assms(2) show False by simp
  qed
  have "v < 2 powi (ilog2 v + 1)"
    using ilog2_bounds [OF assms(2)] by simp
  also have "(2::rat) powi (ilog2 v + 1) \<le> 2 powi (quantum v + 53)"
    using assms(2) by (intro powi_mono) (simp add: quantum_def)
  also have "\<dots> = 2 ^ 53 * 2 powi quantum v"
    by (simp add: power_int_add)
  finally have "of_int m * (2::rat) powi quantum v < 2 ^ 53 * 2 powi quantum v"
    using v by simp
  then have "(of_int m :: rat) < 2 ^ 53"
    by simp
  then have "m < 2 ^ 53"
    by (metis of_int_less_iff of_int_numeral of_int_power)
  with v mpos show ?thesis by blast
qed

lemma quantum_low: "- 1074 \<le> quantum v"
  by (simp add: quantum_def)

lemma quantum_in: "0 < v \<Longrightarrow> 2 powi k \<le> v \<Longrightarrow> v < 2 powi (k + 1) \<Longrightarrow> - 1022 \<le> k \<Longrightarrow> quantum v = k - 52"
  using ilog2_unique [of v k] by (simp add: quantum_def)

lemma seg1:
  assumes d: "fl v = v" and "0 \<le> v" and "v < 1 / 4"
  shows "fmul 4 v = 4 * v"
proof (cases "v = 0")
  case True
  then show ?thesis by (simp add: fmul_def fl_def)
next
  case False
  with assms have pos: "0 < v" by simp
  from double_grid [OF d pos] obtain m
    where v: "v = of_int m * 2 powi quantum v" and m: "0 < m" "m < 2 ^ 53" by blast
  have "4 * v = of_int m * 2 powi (quantum v + 2)"
    by (subst v) (simp add: power_int_add)
  moreover have "\<bar>m\<bar> < 2 ^ 53" using m by simp
  moreover have "- 1074 \<le> quantum v + 2" using quantum_low [of v] by simp
  ultimately have "fl (4 * v) = 4 * v" by (rule fl_grid)
  then show ?thesis by (simp add: fmul_def)
qed

lemma on_grid:
  assumes d: "fl v = v" and "2 powi k \<le> v" and "v < 2 powi (k + 1)" and "- 1022 \<le> k"
  obtains m where "v = of_int m * 2 powi (k - 52)" and "0 < m" and "m < 2 ^ 53"
proof -
  have pos: "0 < v"
    using assms(2) by (rule less_le_trans [rotated]) simp
  from double_grid [OF d pos] quantum_in [OF pos assms(2-4)] that show ?thesis
    by auto
qed

lemma seg2:
  assumes d: "fl v = v" and lo: "1 / 4 \<le> v" and hi: "v < 1 / 2"
  shows "fsub 1 (fmul 4 (fsub v (1 / 4))) = 1 - 4 * (v - 1 / 4)"
proof -
  have "2 powi (- 2) \<le> v" "v < 2 powi (- 2 + 1)"
    using lo hi by simp_all
  from on_grid [OF d this] obtain m where v: "v = of_int m * 2 powi (- 54)" and m: "0 < m" "m < 2 ^ 53"
    by auto
  have ml: "2 ^ 52 \<le> m"
  proof -
    have "(of_int (2 ^ 52) :: rat) \<le> of_int m" using lo unfolding v by simp
    then show ?thesis by (simp only: of_int_le_iff)
  qed
  have a: "fl (v - 1 / 4) = v - 1 / 4"
  proof (rule fl_grid)
    show "v - 1 / 4 = of_int (m - 2 ^ 52) * 2 powi (- 54)" unfolding v by simp
    show "\<bar>m - 2 ^ 52\<bar> < 2 ^ 53" using m ml by simp
  qed simp
  have b: "fl (4 * (v - 1 / 4)) = 4 * (v - 1 / 4)"
  proof (rule fl_grid)
    show "4 * (v - 1 / 4) = of_int (m - 2 ^ 52) * 2 powi (- 52)" unfolding v by simp
    show "\<bar>m - 2 ^ 52\<bar> < 2 ^ 53" using m ml by simp
  qed simp
  have c: "fl (1 - 4 * (v - 1 / 4)) = 1 - 4 * (v - 1 / 4)"
  proof (rule fl_grid)
    show "1 - 4 * (v - 1 / 4) = of_int (2 ^ 53 - m) * 2 powi (- 52)" unfolding v by simp
    show "\<bar>2 ^ 53 - m\<bar> < 2 ^ 53" using m ml by simp
  qed simp
  show ?thesis
    by (simp only: fsub_def fmul_def a b c)
qed

lemma seg3:
  assumes d: "fl v = v" and lo: "1 / 2 \<le> v" and hi: "v < 3 / 4"
  shows "fmul 4 (fsub v (1 / 2)) = 4 * (v - 1 / 2)"
proof -
  have "2 powi (- 1) \<le> v" "v < 2 powi (- 1 + 1)"
    using lo hi by simp_all
  from on_grid [OF d this] obtain m where v: "v = of_int m * 2 powi (- 53)" and m: "0 < m" "m < 2 ^ 53"
    by auto
  have ml: "2 ^ 52 \<le> m"
  proof -
    have "(of_int (2 ^ 52) :: rat) \<le> of_int m" using lo unfolding v by simp
    then show ?thesis by (simp only: of_int_le_iff)
  qed
  have a: "fl (v - 1 / 2) = v - 1 / 2"
  proof (rule fl_grid)
    show "v - 1 / 2 = of_int (m - 2 ^ 52) * 2 powi (- 53)" unfolding v by simp
    show "\<bar>m - 2 ^ 52\<bar> < 2 ^ 53" using m ml by simp
  qed simp
  have b: "fl (4 * (v - 1 / 2)) = 4 * (v - 1 / 2)"
  proof (rule fl_grid)
    show "4 * (v - 1 / 2) = of_int (m - 2 ^ 52) * 2 powi (- 51)" unfolding v by simp
    show "\<bar>m - 2 ^ 52\<bar> < 2 ^ 53" using m ml by simp
  qed simp
  show ?thesis
    by (simp only: fsub_def fmul_def a b)
qed

lemma seg4:
  assumes d: "fl v = v" and lo: "3 / 4 \<le> v" and hi: "v \<le> 1"
  shows "fsub 1 (fmul 4 (fsub v (3 / 4))) = 1 - 4 * (v - 3 / 4)"
proof (cases "v = 1")
  case True
  have a: "fl (1 - 3 / 4) = 1 - 3 / 4"
    by (rule fl_grid [where m = 1 and e = "- 2"]) simp_all
  have b: "fl (4 * (1 - 3 / 4)) = 4 * (1 - 3 / 4)"
    by (rule fl_grid [where m = 1 and e = 0]) simp_all
  have c: "fl (1 - 4 * (1 - 3 / 4)) = 1 - 4 * (1 - 3 / 4)"
    by (simp add: fl_def)
  show ?thesis
    unfolding True by (simp only: fsub_def fmul_def a b c)
next
  case False
  with hi have hi': "v < 1" by simp
  have lo': "1 / 2 \<le> v" using lo by simp
  have "2 powi (- 1) \<le> v" "v < 2 powi (- 1 + 1)"
    using lo' hi' by simp_all
  from on_grid [OF d this] obtain m where v: "v = of_int m * 2 powi (- 53)" and m: "0 < m" "m < 2 ^ 53"
    by auto
  have ml: "3 * 2 ^ 51 \<le> m"
  proof -
    have "(of_int (3 * 2 ^ 51) :: rat) \<le> of_int m" using lo unfolding v by simp
    then show ?thesis by (simp only: of_int_le_iff)
  qed
  have a: "fl (v - 3 / 4) = v - 3 / 4"
  proof (rule fl_grid)
    show "v - 3 / 4 = of_int (m - 3 * 2 ^ 51) * 2 powi (- 53)" unfolding v by simp
    show "\<bar>m - 3 * 2 ^ 51\<bar> < 2 ^ 53" using m ml by simp
  qed simp
  have b: "fl (4 * (v - 3 / 4)) = 4 * (v - 3 / 4)"
  proof (rule fl_grid)
    show "4 * (v - 3 / 4) = of_int (m - 3 * 2 ^ 51) * 2 powi (- 51)" unfolding v by simp
    show "\<bar>m - 3 * 2 ^ 51\<bar> < 2 ^ 53" using m ml by simp
  qed simp
  have c: "fl (1 - 4 * (v - 3 / 4)) = 1 - 4 * (v - 3 / 4)"
  proof (rule fl_grid)
    show "1 - 4 * (v - 3 / 4) = of_int (2 ^ 53 - m) * 2 powi (- 51)" unfolding v by simp
    show "\<bar>2 ^ 53 - m\<bar> < 2 ^ 53" using m ml by simp
  qed simp
  show ?thesis
    by (simp only: fsub_def fmul_def a b c)
qed

lemma jet_exact:
  assumes d: "fl v = v" and "0 \<le> v" and "v \<le> 1"
  shows "jet_rgb v = spec_jet v"
proof -
  consider "v < 1 / 4" | "1 / 4 \<le> v" "v < 1 / 2" | "1 / 2 \<le> v" "v < 3 / 4" | "3 / 4 \<le> v"
    by linarith
  then show ?thesis
  proof cases
    case 1
    with seg1 [OF d assms(2)] show ?thesis
      by (simp add: jet_rgb_def spec_jet_def)
  next
    case 2
    with seg2 [OF d] show ?thesis
      by (simp add: jet_rgb_def spec_jet_def)
  next
    case 3
    with seg3 [OF d] show ?thesis
      by (simp add: jet_rgb_def spec_jet_def)
  next
    case 4
    with seg4 [OF d _ assms(3)] show ?thesis
      by (simp add: jet_rgb_def spec_jet_def)
  qed
qed

lemma jet_range:
  "(case jet_rgb v of (r, g, b) \<Rightarrow> 0 \<le> r \<and> r \<le> 1 \<and> 0 \<le> g \<and> g \<le> 1 \<and> 0 \<le> b \<and> b \<le> 1)"
  by (simp add: jet_rgb_def Let_def split: prod.splits if_splits)

lemma doubles:
  "fl 0 = 0" "fl (1 / 4) = 1 / 4" "fl (1 / 2) = 1 / 2" "fl (3 / 4) = 3 / 4" "fl 1 = 1"
  "fl (3 / 8) = 3 / 8"
proof -
  show "fl 0 = 0" by (simp add: fl_def)
  show "fl (1 / 4) = 1 / 4" by (rule fl_grid [where m = 1 and e = "- 2"]) simp_all
  show "fl (1 / 2) = 1 / 2" by (rule fl_grid [where m = 1 and e = "- 1"]) simp_all
  show "fl (3 / 4) = 3 / 4" by (rule fl_grid [where m = 3 and e = "- 2"]) simp_all
  show "fl 1 = 1" by (rule fl_grid [where m = 1 and e = 0]) simp_all
  show "fl (3 / 8) = 3 / 8" by (rule fl_grid [where m = 3 and e = "- 3"]) simp_all
qed

lemma jet_points:
  "jet_rgb 0 = (0, 0, 1)" "jet_rgb (1 / 4) = (0, 1, 1)" "jet_rgb (1 / 2) = (0, 1, 0)"
  "jet_rgb (3 / 4) = (1, 1, 0)" "jet_rgb 1 = (1, 0, 0)"
  using jet_exact [OF doubles(1)] jet_exact [OF doubles(2)] jet_exact [OF doubles(3)]
    jet_exact [OF doubles(4)] jet_exact [OF doubles(5)]
  by (simp_all add: spec_jet_def)

lemma left_formulas:
  "fmul 4 (1 / 4) = 1" "fsub 1 (fmul 4 (fsub (1 / 2) (1 / 4))) = 0" "fmul 4 (fsub (3 / 4) (1 / 2)) = 1"
  by (simp_all add: fmul_def fsub_def doubles)

text \<open>
  Claim C6. For every double \<open>v\<close> of the unit interval \<^verbatim>\<open>jet_rgb\<close> returns the value of the
  four-segment colour map of the specification, computed exactly and clamped: below 0.25
  \<open>(0, 4v, 1)\<close>, below 0.5 \<open>(0, 1, 1 - 4(v - 0.25))\<close>, below 0.75 \<open>(4(v - 0.5), 1, 0)\<close>, else
  \<open>(1, 1 - 4(v - 0.75), 0)\<close>. All channels lie in the unit interval, the value at 0 is
  \<open>(0, 0, 1)\<close>, the value at 1 is \<open>(1, 0, 0)\<close>, and at each of the breakpoints 0.25, 0.5, 0.75
  the formula of the segment that ends there gives the value of the segment that starts there.
\<close>

theorem jet_rgb_piecewise:
  assumes "fl v = v" and "0 \<le> v" and "v \<le> 1"
  shows
    "jet_rgb v = spec_jet v
     \<and> (case jet_rgb v of (r, g, b) \<Rightarrow> 0 \<le> r \<and> r \<le> 1 \<and> 0 \<le> g \<and> g \<le> 1 \<and> 0 \<le> b \<and> b \<le> 1)
     \<and> jet_rgb 0 = (0, 0, 1) \<and> jet_rgb 1 = (1, 0, 0)
     \<and> (0, fmul 4 (1 / 4), 1) = jet_rgb (1 / 4)
     \<and> (0, 1, fsub 1 (fmul 4 (fsub (1 / 2) (1 / 4)))) = jet_rgb (1 / 2)
     \<and> (fmul 4 (fsub (3 / 4) (1 / 2)), 1, 0) = jet_rgb (3 / 4)"
  using jet_exact [OF assms] jet_range [of v]
  by (simp only: jet_points left_formulas simp_thms)

theorem jet_rgb_piecewise_witness:
  "fl (3 / 8) = 3 / 8 \<and> (0::rat) \<le> 3 / 8 \<and> (3 / 8 :: rat) \<le> 1 \<and> jet_rgb (3 / 8) = (0, 1, 1 / 2)"
proof -
  have d: "fl (3 / 8) = 3 / 8" by (rule doubles)
  have a: "(0::rat) \<le> 3 / 8" "(3 / 8 :: rat) \<le> 1" by simp_all
  from jet_rgb_piecewise [OF d a] have "jet_rgb (3 / 8) = spec_jet (3 / 8)"
    by (rule conjunct1)
  then have "jet_rgb (3 / 8) = (0, 1, 1 / 2)"
    by (simp add: spec_jet_def)
  with d a show ?thesis by simp
qed

end
